theory Spec2Isabelle
  imports Main
begin

section \<open>Python values, exceptions and the observable world\<close>

text \<open>
  The program is a Python script (\<^verbatim>\<open>src/main.py\<close>) that talks to remote services: the
  directory, the file listing, the script-content service and the table store. Its own
  control flow (the try/except/finally blocks, the loops, the buffer) is embedded here as
  HOL functions; what the remote services answer is a parameter, the record \<open>env\<close> below.

  Python's truth test on the values that occur: \<open>None\<close> and the empty string are falsy.
\<close>

definition truthy :: "string option \<Rightarrow> bool" where
  "truthy v = (case v of None \<Rightarrow> False | Some s \<Rightarrow> s \<noteq> [])"

text \<open>
  The exceptions the program can meet. All of them are subclasses of Python's
  \<open>Exception\<close>, so every \<open>except Exception\<close> clause catches each of them:
  \<open>HttpError s\<close> is \<open>googleapiclient.errors.HttpError\<close> with \<open>resp.status = s\<close>,
  \<open>TooManyRequests\<close> is the one of \<open>google.api_core.exceptions\<close>, \<open>RetryError e\<close> is
  the one the retry decorator raises around the last failure \<open>e\<close>, and
  \<open>OtherException\<close> stands for every other subclass, with its message.
\<close>

datatype exn =
    HttpError nat
  | TooManyRequests
  | OtherException string
  | RetryError exn

text \<open>
  What running a piece of the program gives: a value, an exception, or nothing at all
  when a \<open>while True\<close> loop was cut off by its fuel.
\<close>

datatype 'a outcome = Return 'a | Raise exn | OutOfFuel

datatype level = INFO | WARNING | ERROR | CRITICAL

subsection \<open>Decimal rendering, for the f-strings\<close>

definition digit_char :: "nat \<Rightarrow> char" where
  "digit_char d =
     (if d = 0 then CHR ''0'' else if d = 1 then CHR ''1'' else if d = 2 then CHR ''2''
      else if d = 3 then CHR ''3'' else if d = 4 then CHR ''4'' else if d = 5 then CHR ''5''
      else if d = 6 then CHR ''6'' else if d = 7 then CHR ''7'' else if d = 8 then CHR ''8''
      else CHR ''9'')"

function str_nat :: "nat \<Rightarrow> string" where
  "str_nat n = (if n < 10 then [digit_char n] else str_nat (n div 10) @ [digit_char (n mod 10)])"
  by pat_completeness auto
termination
  by (relation "measure (\<lambda>n. n)") auto

declare str_nat.simps [simp del]

fun str_exn :: "exn \<Rightarrow> string" where
  "str_exn (HttpError s) = ''HttpError '' @ str_nat s"
| "str_exn TooManyRequests = ''429 Too Many Requests''"
| "str_exn (OtherException m) = m"
| "str_exn (RetryError e) = ''RetryError['' @ str_exn e @ '']''"

section \<open>Configuration at import time\<close>

text \<open>
  Lines 31 to 55 of the module run when it is imported: they read five environment
  variables, strip a project qualifier from two of them, test three of them, and create
  the table-store client. \<open>sys.exit(1)\<close> is the value \<open>SysExit 1\<close>. The constructor
  of the client is a remote library call; whether it raises is the parameter
  \<open>client_init\<close>.
\<close>

record config =
  PROJECT_ID :: "string option"
  DATASET_ID :: "string option"
  MANIFEST_TABLE_ID :: "string option"
  ADMIN_USER_EMAIL :: "string option"
  SERVICE_ACCOUNT_EMAIL :: "string option"

datatype startup_event = LogCritical string | ClientCreated

datatype startup = SysExit nat "startup_event list" | Started config "startup_event list"

text \<open>\<open>s.split('.')[-1]\<close>: what follows the last dot of \<open>s\<close>.\<close>

definition split_last :: "string \<Rightarrow> string" where
  "split_last s = rev (takeWhile (\<lambda>c. c \<noteq> CHR ''.'') (rev s))"

definition sanitize :: "string option \<Rightarrow> string option" where
  "sanitize v =
     (case v of
        None \<Rightarrow> None
      | Some s \<Rightarrow> if s \<noteq> [] \<and> CHR ''.'' \<in> set s then Some (split_last s) else Some s)"

definition environ_get_default :: "(string \<rightharpoonup> string) \<Rightarrow> string \<Rightarrow> string \<Rightarrow> string option" where
  "environ_get_default environ k d = (case environ k of None \<Rightarrow> Some d | Some v \<Rightarrow> Some v)"

definition read_config :: "(string \<rightharpoonup> string) \<Rightarrow> config" where
  "read_config environ =
     \<lparr> PROJECT_ID = environ ''PROJECT_ID'',
       DATASET_ID = sanitize (environ ''DATASET_ID''),
       MANIFEST_TABLE_ID =
         sanitize (environ_get_default environ ''MANIFEST_TABLE_ID'' ''manifest_audit_log''),
       ADMIN_USER_EMAIL = environ ''ADMIN_USER_EMAIL'',
       SERVICE_ACCOUNT_EMAIL = environ ''SERVICE_ACCOUNT_EMAIL'' \<rparr>"

definition module_init :: "(string \<rightharpoonup> string) \<Rightarrow> exn option \<Rightarrow> startup" where
  "module_init environ client_init =
     (let c = read_config environ in
      if \<not> list_all truthy [PROJECT_ID c, ADMIN_USER_EMAIL c, SERVICE_ACCOUNT_EMAIL c]
      then SysExit 1 [LogCritical ''Missing required environment variables. Exiting.'']
      else (case client_init of
              Some e \<Rightarrow>
                SysExit 1 [LogCritical (''Failed to initialize BigQuery Client: '' @ str_exn e)]
            | None \<Rightarrow> Started c [ClientCreated]))"

text \<open>An environment that sets the three tested variables and nothing else.\<close>

definition environ_three :: "string \<rightharpoonup> string" where
  "environ_three =
     [''PROJECT_ID'' \<mapsto> ''p'', ''ADMIN_USER_EMAIL'' \<mapsto> ''a@x'', ''SERVICE_ACCOUNT_EMAIL'' \<mapsto> ''s@x'']"

section \<open>The observable world and the remote services\<close>

text \<open>
  A row of the target table, as \<open>scan_user_for_manifests\<close> builds it. The Drive listing asks
  for the fields \<open>id\<close> and \<open>name\<close> of every file, so both are strings here.
\<close>

record manifest_row =
  script_id :: string
  script_name :: string
  owner_email :: string
  manifest_content :: string
  extraction_date :: string

text \<open>
  Every call that leaves the process is recorded, in order: \<open>Acquire\<close> is the body of
  \<open>get_impersonated_service\<close> (credentials, signer and \<open>build\<close>), the next three are the
  \<open>execute()\<close> calls of the directory, Drive and Apps Script services (the owner of the
  handle comes first), and the last five are the calls on \<open>BQ_CLIENT\<close>.
\<close>

datatype call =
    Acquire string string string
  | UsersList "string option"
  | FilesList string "string option"
  | GetContent string string
  | GetTable string
  | LoadTable string "manifest_row list"
  | JobResult string
  | MergeQuery string string
  | DeleteTable string

text \<open>
  The world the program acts on: the calls made so far, the log, the back-off sleeps, and
  the tables of the dataset (one dataset: \<open>DATASET_ID\<close> is the same in every reference the
  program builds).
\<close>

record world =
  calls :: "call list"
  logs :: "(level \<times> string) list"
  sleeps :: "nat list"
  tables :: "string \<rightharpoonup> manifest_row list"

record domain_user =
  primaryEmail :: string
  suspended :: bool

record users_page =
  up_users :: "domain_user list"
  up_nextPageToken :: "string option"

record drive_file =
  file_id :: string
  file_name :: string

record files_page =
  fp_files :: "drive_file list"
  fp_nextPageToken :: "string option"

text \<open>A handle built by \<open>get_impersonated_service\<close>: the API, its version, the subject.\<close>

datatype service = Service string string string

fun subject_of :: "service \<Rightarrow> string" where
  "subject_of (Service api_name api_version subject_email) = subject_email"

record content_file =
  cf_name :: string
  cf_type :: string
  cf_source :: "string option"

text \<open>
  What the remote side answers is a parameter. The answer to a call may depend on the call
  and on how many calls were made before it (so a service may fail twice and then succeed):
  \<open>fault E t c\<close> is the exception call \<open>c\<close> raises when it is call number \<open>t\<close>, if it
  raises; the other fields are the payloads of the calls that succeed, the two clock
  readings, the process id, the order in which \<open>as_completed\<close> yields the futures, and
  the module global \<open>DATASET_ID\<close> as lines 32 to 41 left it: \<open>None\<close> when the variable
  is not in the environment of the process, which line 47 does not test.
\<close>

record env =
  fault :: "nat \<Rightarrow> call \<Rightarrow> exn option"
  users_list_r :: "nat \<Rightarrow> string option \<Rightarrow> users_page"
  files_list_r :: "nat \<Rightarrow> string \<Rightarrow> string option \<Rightarrow> files_page"
  get_content_r :: "nat \<Rightarrow> string \<Rightarrow> string \<Rightarrow> content_file list"
  timestamp :: "nat \<Rightarrow> nat"
  utcnow_isoformat :: "nat \<Rightarrow> string"
  getpid :: nat
  as_completed :: "(string \<times> (exn + manifest_row list)) list
                     \<Rightarrow> (string \<times> (exn + manifest_row list)) list"
  dataset_id :: "string option"

definition log :: "level \<Rightarrow> string \<Rightarrow> world \<Rightarrow> world" where
  "log l m w = w\<lparr>logs := logs w @ [(l, m)]\<rparr>"

definition remote :: "env \<Rightarrow> call \<Rightarrow> (nat \<Rightarrow> 'a) \<Rightarrow> world \<Rightarrow> 'a outcome \<times> world" where
  "remote E c payload w =
     (let t = length (calls w); w' = w\<lparr>calls := calls w @ [c]\<rparr> in
      case fault E t c of Some e \<Rightarrow> (Raise e, w') | None \<Rightarrow> (Return (payload t), w'))"

subsection \<open>Sequencing, try/except and try/finally\<close>

definition bind :: "(world \<Rightarrow> 'a outcome \<times> world) \<Rightarrow> ('a \<Rightarrow> world \<Rightarrow> 'b outcome \<times> world)
    \<Rightarrow> world \<Rightarrow> 'b outcome \<times> world" where
  "bind m f w =
     (case m w of
        (Return x, w1) \<Rightarrow> f x w1
      | (Raise e, w1) \<Rightarrow> (Raise e, w1)
      | (OutOfFuel, w1) \<Rightarrow> (OutOfFuel, w1))"

text \<open>\<open>try: m except Exception as e: h e\<close>.\<close>

definition try_except :: "(world \<Rightarrow> 'a outcome \<times> world) \<Rightarrow> (exn \<Rightarrow> world \<Rightarrow> 'a outcome \<times> world)
    \<Rightarrow> world \<Rightarrow> 'a outcome \<times> world" where
  "try_except m h w =
     (case m w of
        (Raise e, w1) \<Rightarrow> h e w1
      | (r, w1) \<Rightarrow> (r, w1))"

text \<open>
  \<open>try: m finally: fin\<close>: \<open>fin\<close> runs whatever \<open>m\<close> did, and an exception of \<open>fin\<close>
  replaces the outcome of \<open>m\<close>.
\<close>

definition try_finally :: "(world \<Rightarrow> 'a outcome \<times> world) \<Rightarrow> (world \<Rightarrow> unit outcome \<times> world)
    \<Rightarrow> world \<Rightarrow> 'a outcome \<times> world" where
  "try_finally m fin w =
     (case m w of
        (OutOfFuel, w1) \<Rightarrow> (OutOfFuel, w1)
      | (r, w1) \<Rightarrow>
          (case fin w1 of
             (Return u, w2) \<Rightarrow> (r, w2)
           | (Raise e, w2) \<Rightarrow> (Raise e, w2)
           | (OutOfFuel, w2) \<Rightarrow> (OutOfFuel, w2)))"

section \<open>The table store\<close>

text \<open>
  The statement of lines 120 to 133, on the rows of the target \<open>T\<close> and of the staging table
  \<open>S\<close>: a target row whose \<open>script_id\<close> equals that of a staging row takes the four other
  fields of that staging row; a staging row that matches no target row is inserted. The
  store rejects the statement when a target row matches more than one staging row.
\<close>

definition update_set :: "manifest_row \<Rightarrow> manifest_row \<Rightarrow> manifest_row" where
  "update_set t s =
     t\<lparr> manifest_content := manifest_content s,
        extraction_date := extraction_date s,
        script_name := script_name s,
        owner_email := owner_email s \<rparr>"

definition matched :: "manifest_row \<Rightarrow> manifest_row \<Rightarrow> bool" where
  "matched t s = (script_id t = script_id s)"

definition bq_merge :: "manifest_row list \<Rightarrow> manifest_row list \<Rightarrow> exn + manifest_row list" where
  "bq_merge T S =
     (if list_ex (\<lambda>t. 1 < length (filter (matched t) S)) T
      then Inl (OtherException ''UPDATE/MERGE must match at most one source row for each target row'')
      else Inr (map (\<lambda>t. case find (matched t) S of Some s \<Rightarrow> update_set t s | None \<Rightarrow> t) T
                @ filter (\<lambda>s. \<not> list_ex (\<lambda>t. matched t s) T) S))"

text \<open>The five calls of \<open>execute_merge_query\<close> on the client, with their effect on the tables.\<close>

definition get_table :: "env \<Rightarrow> string \<Rightarrow> world \<Rightarrow> unit outcome \<times> world" where
  "get_table E tid =
     bind (remote E (GetTable tid) (\<lambda>t. ()))
       (\<lambda>u w. if tables w tid = None then (Raise (OtherException ''NotFound''), w)
              else (Return (), w))"

definition load_table_from_json :: "env \<Rightarrow> manifest_row list \<Rightarrow> string \<Rightarrow> world
    \<Rightarrow> (string \<times> manifest_row list) outcome \<times> world" where
  "load_table_from_json E rows temp = remote E (LoadTable temp rows) (\<lambda>t. (temp, rows))"

text \<open>\<open>job.result()\<close>: the load has run, with \<open>WRITE_TRUNCATE\<close>.\<close>

definition job_result :: "env \<Rightarrow> string \<times> manifest_row list \<Rightarrow> world \<Rightarrow> unit outcome \<times> world" where
  "job_result E job =
     bind (remote E (JobResult (fst job)) (\<lambda>t. ()))
       (\<lambda>u w. (Return (), w\<lparr>tables := (tables w)(fst job \<mapsto> snd job)\<rparr>))"

definition query_result :: "env \<Rightarrow> string \<Rightarrow> string \<Rightarrow> world \<Rightarrow> unit outcome \<times> world" where
  "query_result E tid temp =
     bind (remote E (MergeQuery tid temp) (\<lambda>t. ()))
       (\<lambda>u w. case (tables w tid, tables w temp) of
                (Some T, Some S) \<Rightarrow>
                  (case bq_merge T S of
                     Inl e \<Rightarrow> (Raise e, w)
                   | Inr T' \<Rightarrow> (Return (), w\<lparr>tables := (tables w)(tid \<mapsto> T')\<rparr>))
              | (a, b) \<Rightarrow> (Raise (OtherException ''NotFound''), w))"

text \<open>\<open>delete_table(ref, not_found_ok=True)\<close>: a table that is not there is no error.\<close>

definition delete_table :: "env \<Rightarrow> string \<Rightarrow> world \<Rightarrow> unit outcome \<times> world" where
  "delete_table E temp =
     bind (remote E (DeleteTable temp) (\<lambda>t. ()))
       (\<lambda>u w. (Return (), w\<lparr>tables := (tables w)(temp := None)\<rparr>))"

definition temp_table_id :: "env \<Rightarrow> string \<Rightarrow> nat \<Rightarrow> string" where
  "temp_table_id E table_id t =
     table_id @ ''_staging_'' @ str_nat (timestamp E t) @ ''_'' @ str_nat (getpid E)"

definition merge_attempt :: "env \<Rightarrow> string \<Rightarrow> manifest_row list \<Rightarrow> string \<Rightarrow> world
    \<Rightarrow> unit outcome \<times> world" where
  "merge_attempt E table_id rows_to_insert temp =
     bind (get_table E table_id) (\<lambda>schema.
     bind (load_table_from_json E rows_to_insert temp) (\<lambda>job.
     bind (job_result E job) (\<lambda>u1.
     bind (query_result E table_id temp) (\<lambda>u2 w.
       (Return (),
        log INFO (''Merged '' @ str_nat (length rows_to_insert) @ '' manifests into '' @ table_id) w)))))"

text \<open>
  \<open>BQ_CLIENT.dataset(DATASET_ID)\<close>, which lines 109 and 110 evaluate before the \<open>try\<close>:
  the library builds the reference in the process, and raises a \<open>ValueError\<close> when the
  identifier is not a string.
\<close>

definition client_dataset :: "string option \<Rightarrow> world \<Rightarrow> string outcome \<times> world" where
  "client_dataset d w =
     (case d of
        None \<Rightarrow> (Raise (OtherException ''Pass a string for dataset_id''), w)
      | Some dataset \<Rightarrow> (Return dataset, w))"

definition execute_merge_query :: "env \<Rightarrow> string \<Rightarrow> manifest_row list \<Rightarrow> world
    \<Rightarrow> unit outcome \<times> world" where
  "execute_merge_query E table_id rows_to_insert w =
     (if rows_to_insert = [] then (Return (), w)
      else
        let temp = temp_table_id E table_id (length (calls w)) in
        bind (client_dataset (dataset_id E)) (\<lambda>temp_table_ref.
        bind (client_dataset (dataset_id E)) (\<lambda>target_table_ref.
          try_finally
            (try_except
               (merge_attempt E table_id rows_to_insert temp)
               (\<lambda>e w1. (Return (),
                  log ERROR (''BigQuery Merge Failed for '' @ table_id @ '': '' @ str_exn e) w1)))
            (delete_table E temp))) w)"

section \<open>The batching buffer\<close>

definition BQ_BATCH_SIZE :: nat where
  "BQ_BATCH_SIZE = 500"

text \<open>
  An object of class \<open>BigQueryBatcher\<close>. Its methods change it in place, so they return
  the object beside the outcome: what was changed before an exception stays changed.
\<close>

record batcher =
  table_id :: string
  buffer :: "manifest_row list"

definition BigQueryBatcher_flush :: "env \<Rightarrow> batcher \<Rightarrow> world \<Rightarrow> unit outcome \<times> batcher \<times> world" where
  "BigQueryBatcher_flush E self w =
     (if buffer self = [] then (Return (), self, w)
      else
        case execute_merge_query E (table_id self) (buffer self)
               (log INFO (''Flushing batch of '' @ str_nat (length (buffer self)) @ '' items to ''
                            @ table_id self @ ''...'') w) of
          (Return u, w1) \<Rightarrow> (Return (), self\<lparr>buffer := []\<rparr>, w1)
        | (Raise e, w1) \<Rightarrow> (Raise e, self, w1)
        | (OutOfFuel, w1) \<Rightarrow> (OutOfFuel, self, w1))"

definition BigQueryBatcher_add :: "env \<Rightarrow> manifest_row list \<Rightarrow> batcher \<Rightarrow> world
    \<Rightarrow> unit outcome \<times> batcher \<times> world" where
  "BigQueryBatcher_add E rows self w =
     (if rows = [] then (Return (), self, w)
      else
        let self1 = self\<lparr>buffer := buffer self @ rows\<rparr> in
        if BQ_BATCH_SIZE \<le> length (buffer self1) then BigQueryBatcher_flush E self1 w
        else (Return (), self1, w))"

section \<open>Manifest retrieval\<close>

subsection \<open>The retry decorator\<close>

text \<open>
  \<open>@retry(retry=retry_if_exception_type((TooManyRequests, HttpError)),
  wait=wait_exponential(multiplier=1, min=2, max=10), stop=stop_after_attempt(3))\<close>, as the
  tenacity library runs it: the function is called; an exception that the predicate
  rejects is re-raised as it is; otherwise, when the stop condition holds, a \<open>RetryError\<close>
  around the last failure is raised (\<open>reraise\<close> is left at its default), and when it does
  not, the process sleeps and calls the function again. Attempts are numbered from 1.
\<close>

fun retry_if_exception_type :: "exn \<Rightarrow> bool" where
  "retry_if_exception_type TooManyRequests = True"
| "retry_if_exception_type (HttpError s) = True"
| "retry_if_exception_type e = False"

definition stop_after_attempt :: "nat \<Rightarrow> bool" where
  "stop_after_attempt attempt_number = (3 \<le> attempt_number)"

definition wait_exponential :: "nat \<Rightarrow> nat" where
  "wait_exponential attempt_number = max (max 0 2) (min (1 * 2 ^ (attempt_number - 1)) 10)"

definition sleep :: "nat \<Rightarrow> world \<Rightarrow> world" where
  "sleep d w = w\<lparr>sleeps := sleeps w @ [d]\<rparr>"

function retrying :: "(world \<Rightarrow> 'a outcome \<times> world) \<Rightarrow> nat \<Rightarrow> world \<Rightarrow> 'a outcome \<times> world" where
  "retrying fn attempt_number w =
     (case fn w of
        (Raise e, w1) \<Rightarrow>
          if \<not> retry_if_exception_type e then (Raise e, w1)
          else if stop_after_attempt attempt_number then (Raise (RetryError e), w1)
          else retrying fn (attempt_number + 1) (sleep (wait_exponential attempt_number) w1)
      | (r, w1) \<Rightarrow> (r, w1))"
  by pat_completeness auto
termination
  by (relation "measure (\<lambda>(fn, attempt_number, w). 3 - attempt_number)")
     (auto simp: stop_after_attempt_def)

declare retrying.simps [simp del]

text \<open>The outcome of one invocation is final: a value, or an exception that is not retried.\<close>

definition final :: "'a outcome \<Rightarrow> bool" where
  "final r = (case r of Raise e \<Rightarrow> \<not> retry_if_exception_type e | other \<Rightarrow> True)"

subsection \<open>get_manifest_content\<close>

text \<open>The \<open>for\<close> loop of lines 171 to 174: the source of the first file that matches.\<close>

fun find_manifest :: "content_file list \<Rightarrow> string option" where
  "find_manifest [] = None"
| "find_manifest (f # fs) =
     (if cf_name f = ''appsscript'' \<and> cf_type f = ''JSON'' then cf_source f
      else find_manifest fs)"

text \<open>The function as written (lines 167 to 181), before the decorator wraps it.\<close>

definition get_manifest_content_wrapped :: "env \<Rightarrow> string \<Rightarrow> service \<Rightarrow> world
    \<Rightarrow> string option outcome \<times> world" where
  "get_manifest_content_wrapped E sid script_service w =
     (case remote E (GetContent (subject_of script_service) sid)
             (\<lambda>t. get_content_r E t (subject_of script_service) sid) w of
        (Return content_resp, w1) \<Rightarrow> (Return (find_manifest content_resp), w1)
      | (Raise e, w1) \<Rightarrow>
          (case e of
             HttpError status \<Rightarrow>
               (Raise e,
                if status \<in> set [403, 404]
                then log WARNING (''Access/Found Error for script '' @ sid @ '': '' @ str_exn e) w1
                else w1)
           | other \<Rightarrow>
               (Return None,
                log ERROR (''Unknown error getting manifest for '' @ sid @ '': '' @ str_exn e) w1))
      | (OutOfFuel, w1) \<Rightarrow> (OutOfFuel, w1))"

definition get_manifest_content :: "env \<Rightarrow> string \<Rightarrow> service \<Rightarrow> world
    \<Rightarrow> string option outcome \<times> world" where
  "get_manifest_content E sid script_service =
     retrying (get_manifest_content_wrapped E sid script_service) 1"

section \<open>Listing users and scanning a user\<close>

definition get_impersonated_service :: "env \<Rightarrow> string \<Rightarrow> string \<Rightarrow> string \<Rightarrow> world
    \<Rightarrow> service option outcome \<times> world" where
  "get_impersonated_service E api_name api_version subject_email =
     try_except
       (bind (remote E (Acquire api_name api_version subject_email)
                (\<lambda>t. Service api_name api_version subject_email))
          (\<lambda>srv w. (Return (Some srv), w)))
       (\<lambda>e w. (Return None,
           log ERROR (''Auth Error for '' @ subject_email @ '' on API '' @ api_name @ '': ''
                        @ str_exn e) w))"

text \<open>
  The \<open>while True\<close> loop of \<open>get_all_domain_users\<close>. The list \<open>all_users\<close> is extended in
  place, so it is returned beside the outcome. The loop ends when the service sends no
  token; nothing in the program bounds it, so the model counts it down with \<open>fuel\<close>.
\<close>

fun users_loop :: "env \<Rightarrow> nat \<Rightarrow> string option \<Rightarrow> domain_user list \<Rightarrow> world
    \<Rightarrow> unit outcome \<times> domain_user list \<times> world" where
  "users_loop E 0 page_token all_users w = (OutOfFuel, all_users, w)"
| "users_loop E (Suc fuel) page_token all_users w =
     (case remote E (UsersList page_token) (\<lambda>t. users_list_r E t page_token) w of
        (Return results, w1) \<Rightarrow>
          let batch_users = filter (\<lambda>u. \<not> suspended u) (up_users results);
              all_users1 = all_users @ batch_users;
              page_token1 = up_nextPageToken results
          in if \<not> truthy page_token1 then (Return (), all_users1, w1)
             else users_loop E fuel page_token1 all_users1 w1
      | (Raise e, w1) \<Rightarrow> (Raise e, all_users, w1)
      | (OutOfFuel, w1) \<Rightarrow> (OutOfFuel, all_users, w1))"

definition get_all_domain_users :: "env \<Rightarrow> nat \<Rightarrow> service \<Rightarrow> world
    \<Rightarrow> domain_user list outcome \<times> world" where
  "get_all_domain_users E fuel directory_service w =
     (case users_loop E fuel None [] (log INFO ''Fetching list of all domain users...'' w) of
        (Return u, all_users, w1) \<Rightarrow>
          (Return all_users,
           log INFO (''Total active users found: '' @ str_nat (length all_users)) w1)
      | (Raise e, all_users, w1) \<Rightarrow>
          (Return [], log ERROR (''Error fetching users: '' @ str_exn e) w1)
      | (OutOfFuel, all_users, w1) \<Rightarrow> (OutOfFuel, w1))"

text \<open>The \<open>for f in files\<close> loop of \<open>scan_user_for_manifests\<close> (lines 223 to 237).\<close>

fun scan_files :: "env \<Rightarrow> service \<Rightarrow> string \<Rightarrow> drive_file list \<Rightarrow> manifest_row list \<Rightarrow> world
    \<Rightarrow> unit outcome \<times> manifest_row list \<times> world" where
  "scan_files E script_service user_email [] manifest_rows w = (Return (), manifest_rows, w)"
| "scan_files E script_service user_email (f # fs) manifest_rows w =
     (case get_manifest_content E (file_id f) script_service w of
        (Return manifest_json, w1) \<Rightarrow>
          (case manifest_json of
             None \<Rightarrow> scan_files E script_service user_email fs manifest_rows w1
           | Some content \<Rightarrow>
               if content = [] then scan_files E script_service user_email fs manifest_rows w1
               else scan_files E script_service user_email fs
                      (manifest_rows @
                         [\<lparr> script_id = file_id f, script_name = file_name f,
                            owner_email = user_email, manifest_content = content,
                            extraction_date = utcnow_isoformat E (length (calls w1)) \<rparr>]) w1)
      | (Raise e, w1) \<Rightarrow> scan_files E script_service user_email fs manifest_rows w1
      | (OutOfFuel, w1) \<Rightarrow> (OutOfFuel, manifest_rows, w1))"

text \<open>The \<open>while True\<close> loop of \<open>scan_user_for_manifests\<close> (lines 215 to 239).\<close>

fun files_loop :: "env \<Rightarrow> nat \<Rightarrow> service \<Rightarrow> service \<Rightarrow> string \<Rightarrow> string option
    \<Rightarrow> manifest_row list \<Rightarrow> world \<Rightarrow> unit outcome \<times> manifest_row list \<times> world" where
  "files_loop E 0 drive_service script_service user_email page_token manifest_rows w =
     (OutOfFuel, manifest_rows, w)"
| "files_loop E (Suc fuel) drive_service script_service user_email page_token manifest_rows w =
     (case remote E (FilesList (subject_of drive_service) page_token)
             (\<lambda>t. files_list_r E t (subject_of drive_service) page_token) w of
        (Return res, w1) \<Rightarrow>
          (case scan_files E script_service user_email (fp_files res) manifest_rows w1 of
             (Return u, manifest_rows1, w2) \<Rightarrow>
               if \<not> truthy (fp_nextPageToken res) then (Return (), manifest_rows1, w2)
               else files_loop E fuel drive_service script_service user_email
                      (fp_nextPageToken res) manifest_rows1 w2
           | (Raise e, manifest_rows1, w2) \<Rightarrow> (Raise e, manifest_rows1, w2)
           | (OutOfFuel, manifest_rows1, w2) \<Rightarrow> (OutOfFuel, manifest_rows1, w2))
      | (Raise e, w1) \<Rightarrow> (Raise e, manifest_rows, w1)
      | (OutOfFuel, w1) \<Rightarrow> (OutOfFuel, manifest_rows, w1))"

definition scan_user_for_manifests :: "env \<Rightarrow> nat \<Rightarrow> string \<Rightarrow> world
    \<Rightarrow> manifest_row list outcome \<times> world" where
  "scan_user_for_manifests E fuel user_email =
     bind (get_impersonated_service E ''drive'' ''v3'' user_email) (\<lambda>drive_service.
     bind (get_impersonated_service E ''script'' ''v1'' user_email) (\<lambda>script_service w.
       case (drive_service, script_service) of
         (Some ds, Some ss) \<Rightarrow>
           (case files_loop E fuel ds ss user_email None [] w of
              (Return u, manifest_rows, w1) \<Rightarrow>
                (Return manifest_rows,
                 if manifest_rows \<noteq> []
                 then log INFO (''User Scan: Retrieved '' @ str_nat (length manifest_rows)
                                  @ '' manifests for '' @ user_email @ ''.'') w1
                 else w1)
            | (Raise e, manifest_rows, w1) \<Rightarrow>
                (Return manifest_rows,
                 log ERROR (''Error scanning user '' @ user_email @ '': '' @ str_exn e) w1)
            | (OutOfFuel, manifest_rows, w1) \<Rightarrow> (OutOfFuel, w1))
       | (a, b) \<Rightarrow>
           (Return [],
            log WARNING (''Skipping user '' @ user_email @ '' due to Auth failure.'') w)))"

section \<open>The entry point\<close>

text \<open>
  The worker pool runs one \<open>scan_user_for_manifests\<close> per user. A scan touches nothing
  that another scan or the main thread reads, except the log and the remote services, and
  what a service answers is a parameter; so the scans are run here one after the other, in
  the order of submission, each leaving its outcome (its rows, or its exception) in its
  future. \<open>as_completed\<close> then yields the futures in an order the program does not
  control: the field \<open>as_completed\<close> of the environment, about which nothing is assumed.
\<close>

fun submit_all :: "env \<Rightarrow> nat \<Rightarrow> string list \<Rightarrow> world
    \<Rightarrow> (string \<times> (exn + manifest_row list)) list outcome \<times> world" where
  "submit_all E fuel [] w = (Return [], w)"
| "submit_all E fuel (email # emails) w =
     (case scan_user_for_manifests E fuel email w of
        (Return rows, w1) \<Rightarrow>
          (case submit_all E fuel emails w1 of
             (Return futures, w2) \<Rightarrow> (Return ((email, Inr rows) # futures), w2)
           | (Raise e, w2) \<Rightarrow> (Raise e, w2)
           | (OutOfFuel, w2) \<Rightarrow> (OutOfFuel, w2))
      | (Raise exc, w1) \<Rightarrow>
          (case submit_all E fuel emails w1 of
             (Return futures, w2) \<Rightarrow> (Return ((email, Inl exc) # futures), w2)
           | (Raise e, w2) \<Rightarrow> (Raise e, w2)
           | (OutOfFuel, w2) \<Rightarrow> (OutOfFuel, w2))
      | (OutOfFuel, w1) \<Rightarrow> (OutOfFuel, w1))"

text \<open>\<open>future.result()\<close> gives the rows of the scan, or raises what the scan raised.\<close>

fun future_result :: "exn + manifest_row list \<Rightarrow> world \<Rightarrow> manifest_row list outcome \<times> world" where
  "future_result (Inr rows) w = (Return rows, w)"
| "future_result (Inl e) w = (Raise e, w)"

text \<open>The loop of lines 269 to 275.\<close>

fun collect :: "env \<Rightarrow> (string \<times> (exn + manifest_row list)) list \<Rightarrow> batcher \<Rightarrow> world
    \<Rightarrow> unit outcome \<times> batcher \<times> world" where
  "collect E [] bq_batcher w = (Return (), bq_batcher, w)"
| "collect E ((email, future) # rest) bq_batcher w =
     (case (case future_result future w of
              (Return results, w1) \<Rightarrow> BigQueryBatcher_add E results bq_batcher w1
            | (Raise e, w1) \<Rightarrow> (Raise e, bq_batcher, w1)
            | (OutOfFuel, w1) \<Rightarrow> (OutOfFuel, bq_batcher, w1)) of
        (Return u, b1, w2) \<Rightarrow> collect E rest b1 w2
      | (Raise exc, b1, w2) \<Rightarrow>
          collect E rest b1
            (log ERROR (''Worker exception for user '' @ email @ '': '' @ str_exn exc) w2)
      | (OutOfFuel, b1, w2) \<Rightarrow> (OutOfFuel, b1, w2))"

text \<open>The calls the sink makes on the table store.\<close>

fun is_sink_call :: "call \<Rightarrow> bool" where
  "is_sink_call (GetTable t) = True"
| "is_sink_call (LoadTable t rows) = True"
| "is_sink_call (JobResult t) = True"
| "is_sink_call (MergeQuery t s) = True"
| "is_sink_call (DeleteTable t) = True"
| "is_sink_call c = False"

definition MAX_WORKERS :: nat where
  "MAX_WORKERS = 8"

text \<open>
  The body of the outer \<open>try\<close> of \<open>main_handler\<close>. The two globals it reads,
  \<open>ADMIN_USER_EMAIL\<close> and \<open>MANIFEST_TABLE_ID\<close>, are the parameters \<open>admin\<close> and \<open>tbl\<close>.
\<close>

definition pipeline :: "env \<Rightarrow> nat \<Rightarrow> string \<Rightarrow> string \<Rightarrow> world \<Rightarrow> (string \<times> nat) outcome \<times> world" where
  "pipeline E fuel admin tbl w =
     (case get_impersonated_service E ''admin'' ''directory_v1'' admin
             (log INFO (''Starting Manifest Audit Pipeline (Workers: '' @ str_nat MAX_WORKERS @ '')'') w) of
        (Return None, w1) \<Rightarrow> (Return (''Admin Auth Failure'', 500), w1)
      | (Return (Some dir_service), w1) \<Rightarrow>
          (case get_all_domain_users E fuel dir_service w1 of
             (Return all_users, w2) \<Rightarrow>
               if all_users = []
               then (Return (''No Users Found'', 200), log WARNING ''No users found. Exiting.'' w2)
               else
                 (case submit_all E fuel (map primaryEmail all_users) w2 of
                    (Return futures, w3) \<Rightarrow>
                      (case collect E (as_completed E futures) \<lparr>table_id = tbl, buffer = []\<rparr> w3 of
                         (Return u, b1, w4) \<Rightarrow>
                           (case BigQueryBatcher_flush E b1 w4 of
                              (Return u2, b2, w5) \<Rightarrow>
                                (Return (''Success'', 200),
                                 log INFO ''Pipeline completed successfully.'' w5)
                            | (Raise e, b2, w5) \<Rightarrow> (Raise e, w5)
                            | (OutOfFuel, b2, w5) \<Rightarrow> (OutOfFuel, w5))
                       | (Raise e, b1, w4) \<Rightarrow> (Raise e, w4)
                       | (OutOfFuel, b1, w4) \<Rightarrow> (OutOfFuel, w4))
                  | (Raise e, w3) \<Rightarrow> (Raise e, w3)
                  | (OutOfFuel, w3) \<Rightarrow> (OutOfFuel, w3))
           | (Raise e, w2) \<Rightarrow> (Raise e, w2)
           | (OutOfFuel, w2) \<Rightarrow> (OutOfFuel, w2))
      | (Raise e, w1) \<Rightarrow> (Raise e, w1)
      | (OutOfFuel, w1) \<Rightarrow> (OutOfFuel, w1))"

definition main_handler :: "env \<Rightarrow> nat \<Rightarrow> string \<Rightarrow> string \<Rightarrow> world \<Rightarrow> (string \<times> nat) outcome \<times> world" where
  "main_handler E fuel admin tbl =
     try_except (pipeline E fuel admin tbl)
       (\<lambda>e w. (Return (''Failed: '' @ str_exn e, 500),
                log CRITICAL (''Pipeline Critical Failure: '' @ str_exn e) w))"

text \<open>
  The hypothesis under which the two \<open>while True\<close> loops end: from call number \<open>B\<close> on, no
  listing answers with a continuation token.
\<close>

definition paging_ends :: "env \<Rightarrow> nat \<Rightarrow> bool" where
  "paging_ends E B =
     (\<forall>t tok. B \<le> t \<longrightarrow>
        \<not> truthy (up_nextPageToken (users_list_r E t tok)) \<and>
        (\<forall>u. \<not> truthy (fp_nextPageToken (files_list_r E t u tok))))"

section \<open>Concrete environments\<close>

text \<open>A service side that answers every call, with empty listings; the dataset is set.\<close>

definition env0 :: env where
  "env0 =
     \<lparr> fault = (\<lambda>t c. None),
       users_list_r = (\<lambda>t tok. \<lparr>up_users = [], up_nextPageToken = None\<rparr>),
       files_list_r = (\<lambda>t u tok. \<lparr>fp_files = [], fp_nextPageToken = None\<rparr>),
       get_content_r = (\<lambda>t u sid. []),
       timestamp = (\<lambda>t. 0),
       utcnow_isoformat = (\<lambda>t. ''d''),
       getpid = 1,
       as_completed = (\<lambda>fs. fs),
       dataset_id = Some ''ds'' \<rparr>"

text \<open>The same, but deleting a table is refused.\<close>

definition env_delete_fails :: env where
  "env_delete_fails =
     env0\<lparr> fault := (\<lambda>t c. case c of DeleteTable x \<Rightarrow> Some (OtherException ''Forbidden'')
                                   | other \<Rightarrow> None) \<rparr>"

text \<open>The same as \<open>env0\<close>, but \<open>DATASET_ID\<close> is not in the environment of the process.\<close>

definition env_no_dataset :: env where
  "env_no_dataset = env0\<lparr> dataset_id := None \<rparr>"

text \<open>The same as \<open>env0\<close>, but the store rejects the merge statement.\<close>

definition env_merge_fails :: env where
  "env_merge_fails =
     env0\<lparr> fault := (\<lambda>t c. case c of MergeQuery x y \<Rightarrow> Some (OtherException ''BadRequest'')
                                   | other \<Rightarrow> None) \<rparr>"

text \<open>The same as \<open>env0\<close>, but the script-content service answers every call with HTTP 500.\<close>

definition env_500 :: env where
  "env_500 =
     env0\<lparr> fault := (\<lambda>t c. case c of GetContent u sid \<Rightarrow> Some (HttpError 500)
                                   | other \<Rightarrow> None) \<rparr>"


text \<open>The same as \<open>env0\<close>, but every script holds one code file and no manifest.\<close>

definition env_other :: env where
  "env_other =
     env0\<lparr> get_content_r :=
             (\<lambda>t u sid. [\<lparr>cf_name = ''Code'', cf_type = ''SERVER_JS'', cf_source = Some ''x''\<rparr>]) \<rparr>"

text \<open>Drive lists one script, \<open>s1\<close>, for every user.\<close>

definition one_script :: "nat \<Rightarrow> string \<Rightarrow> string option \<Rightarrow> files_page" where
  "one_script t u tok = \<lparr>fp_files = [\<lparr>file_id = ''s1'', file_name = ''A''\<rparr>], fp_nextPageToken = None\<rparr>"


text \<open>One script per user, with a manifest \<open>{}\<close>.\<close>

definition env_manifest :: env where
  "env_manifest =
     env0\<lparr> files_list_r := one_script,
           get_content_r :=
             (\<lambda>t u sid. [\<lparr>cf_name = ''appsscript'', cf_type = ''JSON'', cf_source = Some ''{}''\<rparr>]) \<rparr>"

text \<open>One script per user, whose manifest file is empty.\<close>

definition env_empty_manifest :: env where
  "env_empty_manifest =
     env0\<lparr> files_list_r := one_script,
           get_content_r :=
             (\<lambda>t u sid. [\<lparr>cf_name = ''appsscript'', cf_type = ''JSON'', cf_source = Some []\<rparr>]) \<rparr>"




text \<open>The directory has one active user, \<open>u@x\<close>, who owns one script with a manifest.\<close>

definition env_users :: env where
  "env_users =
     env_manifest\<lparr>
       users_list_r :=
         (\<lambda>t tok. \<lparr>up_users = [\<lparr>primaryEmail = ''u@x'', suspended = False\<rparr>],
                     up_nextPageToken = None\<rparr>) \<rparr>"

text \<open>The same, but deleting a table is refused.\<close>

definition env_users_delete_fails :: env where
  "env_users_delete_fails =
     env_users\<lparr> fault := (\<lambda>t c. case c of DeleteTable x \<Rightarrow> Some (OtherException ''Forbidden'')
                                       | other \<Rightarrow> None) \<rparr>"

text \<open>No handle can be acquired.\<close>

definition env_auth_fails :: env where
  "env_auth_fails =
     env0\<lparr> fault := (\<lambda>t c. case c of Acquire a v subj \<Rightarrow> Some (OtherException ''denied'')
                                   | other \<Rightarrow> None) \<rparr>"

definition file_s1 :: drive_file where
  "file_s1 = \<lparr>file_id = ''s1'', file_name = ''A''\<rparr>"


text \<open>The rows a scan of user \<open>u@x\<close> builds for the scripts \<open>s1\<close> and \<open>s2\<close>.\<close>

definition row_s1 :: manifest_row where
  "row_s1 = \<lparr> script_id = ''s1'', script_name = ''A'', owner_email = ''u@x'',
              manifest_content = ''{}'', extraction_date = ''d'' \<rparr>"


definition script_service0 :: service where
  "script_service0 = Service ''script'' ''v1'' ''u@x''"

text \<open>A world with an empty target table \<open>t\<close>.\<close>

definition world0 :: world where
  "world0 = \<lparr> calls = [], logs = [], sleeps = [], tables = [''t'' \<mapsto> []] \<rparr>"

definition batcher0 :: batcher where
  "batcher0 = \<lparr> table_id = ''t'', buffer = [] \<rparr>"

definition row_a :: manifest_row where
  "row_a = \<lparr> script_id = ''s1'', script_name = ''A'', owner_email = ''a@x'',
             manifest_content = ''{}'', extraction_date = ''d1'' \<rparr>"

definition batcher1 :: batcher where
  "batcher1 = \<lparr> table_id = ''t'', buffer = [row_a] \<rparr>"

definition row_a2 :: manifest_row where
  "row_a2 = \<lparr> script_id = ''s1'', script_name = ''A2'', owner_email = ''a@x'',
              manifest_content = ''{}'', extraction_date = ''d2'' \<rparr>"

section \<open>Theorems\<close>

lemma world0_fields:
  "calls world0 = []" "logs world0 = []" "sleeps world0 = []"
  by (simp_all add: world0_def)

subsection \<open>C2: the merge statement\<close>

lemma update_set_eq: "matched t s \<Longrightarrow> update_set t s = s"
  by (simp add: update_set_def matched_def)

lemma find_matched_Some:
  "distinct (map script_id S) \<Longrightarrow> s \<in> set S \<Longrightarrow> matched t s \<Longrightarrow> find (matched t) S = Some s"
proof (induction S)
  case Nil
  then show ?case by simp
next
  case (Cons a S)
  show ?case
  proof (cases "s = a")
    case True
    with Cons.prems show ?thesis by simp
  next
    case False
    with Cons.prems have s: "s \<in> set S" by simp
    then have "script_id s \<in> script_id ` set S" by (rule imageI)
    with Cons.prems have "script_id a \<noteq> script_id s" by auto
    with Cons.prems have "\<not> matched t a" by (simp add: matched_def)
    with Cons s show ?thesis by simp
  qed
qed

lemma find_matched_None:
  "script_id t \<notin> script_id ` set S \<Longrightarrow> find (matched t) S = None"
  by (induction S) (auto simp: matched_def)

lemma filter_matched_le:
  "distinct (map script_id S) \<Longrightarrow> length (filter (matched t) S) \<le> 1"
  by (induction S) (auto simp: matched_def filter_empty_conv)

lemma bq_merge_ok:
  assumes "distinct (map script_id S)"
  shows "bq_merge T S =
     Inr (map (\<lambda>t. case find (matched t) S of Some s \<Rightarrow> update_set t s | None \<Rightarrow> t) T
                @ filter (\<lambda>s. \<not> list_ex (\<lambda>t. matched t s) T) S)"
proof -
  have "\<not> list_ex (\<lambda>t. 1 < length (filter (matched t) S)) T"
    using filter_matched_le [OF assms] by (auto simp: list_ex_iff not_less)
  then show ?thesis by (simp add: bq_merge_def)
qed

lemma merged_ids:
  "map script_id (map (\<lambda>t. case find (matched t) S of Some s \<Rightarrow> update_set t s | None \<Rightarrow> t) T)
     = map script_id T"
  by (induction T) (auto simp: update_set_def split: option.splits)

lemma bq_merge_step:
  assumes T: "distinct (map script_id T)" and S: "distinct (map script_id S)"
  shows "\<exists>T'. bq_merge T S = Inr T' \<and> distinct (map script_id T') \<and> set S \<subseteq> set T' \<and>
           script_id ` set T' = script_id ` set T \<union> script_id ` set S \<and>
           {t \<in> set T. script_id t \<notin> script_id ` set S} \<subseteq> set T'"
proof -
  let ?upd = "\<lambda>t. case find (matched t) S of Some s \<Rightarrow> update_set t s | None \<Rightarrow> t"
  let ?new = "filter (\<lambda>s. \<not> list_ex (\<lambda>t. matched t s) T) S"
  let ?T' = "map ?upd T @ ?new"
  have eq: "bq_merge T S = Inr ?T'" by (rule bq_merge_ok [OF S])
  have ids: "map script_id (map ?upd T) = map script_id T" by (rule merged_ids)
  have new_disj: "script_id ` set T \<inter> script_id ` set ?new = {}"
    by (auto simp: list_ex_iff matched_def)
  have d: "distinct (map script_id ?T')"
    using T S new_disj ids by (simp add: distinct_map_filter del: map_map)
  have sub: "set S \<subseteq> set ?T'"
  proof
    fix s assume s: "s \<in> set S"
    show "s \<in> set ?T'"
    proof (cases "list_ex (\<lambda>t. matched t s) T")
      case True
      then obtain t where t: "t \<in> set T" "matched t s" by (auto simp: list_ex_iff)
      have "find (matched t) S = Some s" by (rule find_matched_Some [OF S s t(2)])
      then have "?upd t = s" using t(2) by (simp add: update_set_eq)
      with t(1) have "s \<in> set (map ?upd T)" by force
      then show ?thesis by simp
    next
      case False
      with s show ?thesis by simp
    qed
  qed
  have idset: "script_id ` set ?T' = script_id ` set T \<union> script_id ` set S"
  proof -
    have a: "script_id ` set (map ?upd T) = script_id ` set T"
      using ids by (metis list.set_map)
    have b: "script_id ` set ?new \<subseteq> script_id ` set S" by auto
    have c: "script_id ` set S \<subseteq> script_id ` set ?T'" using sub by auto
    show ?thesis using a b c by (auto simp: image_Un)
  qed
  have keep: "{t \<in> set T. script_id t \<notin> script_id ` set S} \<subseteq> set ?T'"
  proof
    fix t assume "t \<in> {t \<in> set T. script_id t \<notin> script_id ` set S}"
    then have t: "t \<in> set T" "script_id t \<notin> script_id ` set S" by auto
    have "?upd t = t" using find_matched_None [OF t(2)] by simp
    with t(1) have "t \<in> set (map ?upd T)" by force
    then show "t \<in> set ?T'" by simp
  qed
  show ?thesis using eq d sub idset keep by blast
qed

lemma bq_merge_same:
  assumes T: "distinct (map script_id T)" and S: "distinct (map script_id S)"
    and sub: "set S \<subseteq> set T"
  shows "bq_merge T S = Inr T"
proof -
  let ?upd = "\<lambda>t. case find (matched t) S of Some s \<Rightarrow> update_set t s | None \<Rightarrow> t"
  have "?upd t = t" if "t \<in> set T" for t
  proof (cases "find (matched t) S")
    case None
    then show ?thesis by simp
  next
    case (Some s)
    then have m: "matched t s" and s: "s \<in> set S"
      by (auto simp: find_Some_iff)
    from s sub have "s \<in> set T" by auto
    with that m T have "t = s"
      by (auto simp: matched_def distinct_map inj_on_def)
    with Some m show ?thesis by (simp add: update_set_eq)
  qed
  then have a: "map ?upd T = T" by (simp add: map_idI)
  have b: "filter (\<lambda>s. \<not> list_ex (\<lambda>t. matched t s) T) S = []"
    using sub by (auto simp: filter_empty_conv list_ex_iff matched_def)
  show ?thesis using a b by (simp add: bq_merge_ok [OF S])
qed

text \<open>
  C2, amended: when the target has one row per \<open>script_id\<close> and the batch has pairwise
  distinct \<open>script_id\<close>s, merging the batch \<open>B\<close> and then a batch \<open>B'\<close> with the same
  \<open>script_id\<close>s succeeds both times and leaves a target with one row per \<open>script_id\<close>,
  in which every row of \<open>B'\<close> stands as it is (all five fields: last write wins), whose
  keys are those of the old target and of the batch, and in which the target rows the batch
  does not name are kept; merging the very same batch again changes nothing.
\<close>

theorem C2_merge_last_write_wins:
  assumes "distinct (map script_id T)" and "distinct (map script_id B)"
    and "map script_id B' = map script_id B"
  shows "\<exists>T1 T2. bq_merge T B = Inr T1 \<and> bq_merge T1 B' = Inr T2 \<and>
           distinct (map script_id T2) \<and> set B' \<subseteq> set T2 \<and>
           script_id ` set T2 = script_id ` set T \<union> script_id ` set B \<and>
           {t \<in> set T. script_id t \<notin> script_id ` set B} \<subseteq> set T2 \<and>
           (B' = B \<longrightarrow> T2 = T1)"
proof -
  from bq_merge_step [OF assms(1,2)] obtain T1 where
    1: "bq_merge T B = Inr T1" "distinct (map script_id T1)" "set B \<subseteq> set T1"
       "script_id ` set T1 = script_id ` set T \<union> script_id ` set B"
       "{t \<in> set T. script_id t \<notin> script_id ` set B} \<subseteq> set T1"
    by blast
  have B': "distinct (map script_id B')" using assms(2,3) by simp
  have idsB: "script_id ` set B' = script_id ` set B"
    using assms(3) by (metis list.set_map)
  from bq_merge_step [OF 1(2) B'] obtain T2 where
    2: "bq_merge T1 B' = Inr T2" "distinct (map script_id T2)" "set B' \<subseteq> set T2"
       "script_id ` set T2 = script_id ` set T1 \<union> script_id ` set B'"
       "{t \<in> set T1. script_id t \<notin> script_id ` set B'} \<subseteq> set T2"
    by blast
  have ids: "script_id ` set T2 = script_id ` set T \<union> script_id ` set B"
    using 1(4) 2(4) idsB by auto
  have keep: "{t \<in> set T. script_id t \<notin> script_id ` set B} \<subseteq> set T2"
    using 1(5) 2(5) idsB by auto
  have same: "B' = B \<longrightarrow> T2 = T1"
    using bq_merge_same [OF 1(2) assms(2) 1(3)] 2(1) by auto
  show ?thesis using 1(1) 2(1) 2(2) 2(3) ids keep same by blast
qed

text \<open>
  C2, as stated: merging the same batch twice leaves exactly one target row per
  \<open>script_id\<close>. A batch may hold two rows with one \<open>script_id\<close>: on a target without
  that key both are inserted by the first merge, and the second merge is rejected.
\<close>

theorem C2_counterexample:
  "script_id row_a = script_id row_a2 \<and> row_a \<noteq> row_a2 \<and>
   bq_merge [] [row_a, row_a2] = Inr [row_a, row_a2] \<and>
   bq_merge [row_a, row_a2] [row_a, row_a2] =
     Inl (OtherException ''UPDATE/MERGE must match at most one source row for each target row'')"
  by (simp add: bq_merge_def matched_def row_a_def row_a2_def)

theorem C2_merge_last_write_wins_witness:
  "distinct (map script_id [row_a]) \<and> map script_id [row_a2] = map script_id [row_a] \<and>
   (\<exists>T1 T2. bq_merge [] [row_a] = Inr T1 \<and> bq_merge T1 [row_a2] = Inr T2 \<and>
           distinct (map script_id T2) \<and> set [row_a2] \<subseteq> set T2 \<and>
           script_id ` set T2 = script_id ` set ([] :: manifest_row list) \<union> script_id ` set [row_a] \<and>
           {t \<in> set ([] :: manifest_row list). script_id t \<notin> script_id ` set [row_a]} \<subseteq> set T2 \<and>
           ([row_a2] = [row_a] \<longrightarrow> T2 = T1)) \<and>
   bq_merge [] [row_a] = Inr [row_a] \<and> bq_merge [row_a] [row_a2] = Inr [row_a2]"
proof -
  have h1: "distinct (map script_id ([] :: manifest_row list))" by simp
  have h2: "distinct (map script_id [row_a])" by simp
  have h3: "map script_id [row_a2] = map script_id [row_a]"
    by (simp add: row_a_def row_a2_def)
  have e: "bq_merge [] [row_a] = Inr [row_a] \<and> bq_merge [row_a] [row_a2] = Inr [row_a2]"
    by (simp add: bq_merge_def matched_def update_set_def row_a_def row_a2_def)
  show ?thesis
    by (rule conjI [OF h2 conjI [OF h3 conjI [OF C2_merge_last_write_wins [OF h1 h2 h3] e]]])
qed


subsection \<open>C9: the configuration check\<close>

text \<open>
  C9, as stated: if any of the five configuration values (project, dataset, table name,
  admin identity, service identity) is missing, the process exits with a non-zero code
  before any work. This fails for the dataset and the table name: with only the three
  tested variables set, neither \<open>DATASET_ID\<close> nor \<open>MANIFEST_TABLE_ID\<close> is in the
  environment, and the module starts, with the table name at its default.
\<close>

theorem C9_counterexample:
  "environ_three ''DATASET_ID'' = None \<and> environ_three ''MANIFEST_TABLE_ID'' = None \<and>
   module_init environ_three None =
     Started \<lparr> PROJECT_ID = Some ''p'', DATASET_ID = None,
               MANIFEST_TABLE_ID = Some ''manifest_audit_log'',
               ADMIN_USER_EMAIL = Some ''a@x'', SERVICE_ACCOUNT_EMAIL = Some ''s@x'' \<rparr>
             [ClientCreated]"
  by (simp add: environ_three_def module_init_def read_config_def sanitize_def
      environ_get_default_def truthy_def Let_def)

text \<open>
  C9, amended: if the project identifier, the admin identity or the service identity is
  missing from the environment (or is the empty string), the module exits with code 1,
  having only logged: the client is not created. A missing table name is replaced by
  \<open>manifest_audit_log\<close>.
\<close>

theorem C9_missing_required_exits:
  "(\<not> truthy (environ ''PROJECT_ID'') \<or> \<not> truthy (environ ''ADMIN_USER_EMAIL'') \<or>
    \<not> truthy (environ ''SERVICE_ACCOUNT_EMAIL'')
      \<longrightarrow> module_init environ client_init =
            SysExit 1 [LogCritical ''Missing required environment variables. Exiting.''])
   \<and> (environ ''MANIFEST_TABLE_ID'' = None
      \<longrightarrow> MANIFEST_TABLE_ID (read_config environ) = Some ''manifest_audit_log'')"
  by (auto simp: module_init_def read_config_def sanitize_def environ_get_default_def
      split_last_def Let_def)

theorem C9_missing_required_exits_witness:
  "\<not> truthy (Map.empty ''PROJECT_ID'') \<and> Map.empty ''MANIFEST_TABLE_ID'' = (None :: string option) \<and>
   module_init Map.empty None =
     SysExit 1 [LogCritical ''Missing required environment variables. Exiting.''] \<and>
   MANIFEST_TABLE_ID (read_config Map.empty) = Some ''manifest_audit_log''"
  using C9_missing_required_exits [of Map.empty None]
  by (simp add: truthy_def)


subsection \<open>C1: the merge-upsert sink\<close>

lemma str_nat_small: "n < 10 \<Longrightarrow> str_nat n = [digit_char n]"
  by (subst str_nat.simps) simp

lemma temp0: "temp_table_id env0 ''t'' 0 = ''t_staging_0_1''"
  by (simp add: temp_table_id_def env0_def str_nat_small digit_char_def)

lemma merge_attempt_caught:
  "\<exists>w1 l m cs. try_except (merge_attempt E tid rows temp)
       (\<lambda>e w1. (Return (), log ERROR (''BigQuery Merge Failed for '' @ tid @ '': '' @ str_exn e) w1)) w
       = (Return (), w1) \<and> logs w1 = logs w @ [(l, m)] \<and>
       (case fst (merge_attempt E tid rows temp w) of Raise e \<Rightarrow> l = ERROR | other \<Rightarrow> l = INFO) \<and>
       calls w1 = calls w @ cs \<and> DeleteTable temp \<notin> set cs"
  by (auto simp: try_except_def merge_attempt_def bind_def get_table_def load_table_from_json_def
      job_result_def query_result_def remote_def log_def Let_def
      split: option.splits sum.splits prod.splits outcome.splits)

lemma delete_table_cases:
  "delete_table E temp w1 =
     (case fault E (length (calls w1)) (DeleteTable temp) of
        Some e \<Rightarrow> (Raise e, w1\<lparr>calls := calls w1 @ [DeleteTable temp]\<rparr>)
      | None \<Rightarrow> (Return (), w1\<lparr>calls := calls w1 @ [DeleteTable temp],
                               tables := (tables w1)(temp := None)\<rparr>))"
  by (simp add: delete_table_def bind_def remote_def Let_def split: option.splits)

text \<open>With \<open>DATASET_ID\<close> unset, the call raises before the \<open>try\<close>, and nothing was called.\<close>

lemma execute_merge_query_unset:
  assumes "rows \<noteq> []" and "dataset_id E = None"
  shows "execute_merge_query E tid rows w = (Raise (OtherException ''Pass a string for dataset_id''), w)"
  using assms by (simp add: execute_merge_query_def client_dataset_def bind_def Let_def)

text \<open>
  Every run of the sink on a non-empty batch, with \<open>DATASET_ID\<close> set: the guarded part ends
  without an exception, with one more log line; then the staging table is deleted, or the
  deletion fails.
\<close>

lemma execute_merge_query_shape:
  assumes "rows \<noteq> []" and ds: "dataset_id E \<noteq> None"
  shows "\<exists>w1 l m cs.
     logs w1 = logs w @ [(l, m)] \<and>
     (case fst (merge_attempt E tid rows (temp_table_id E tid (length (calls w))) w) of
        Raise e \<Rightarrow> l = ERROR | other \<Rightarrow> l = INFO) \<and>
     calls w1 = calls w @ cs \<and> DeleteTable (temp_table_id E tid (length (calls w))) \<notin> set cs \<and>
     execute_merge_query E tid rows w =
       (case fault E (length (calls w1)) (DeleteTable (temp_table_id E tid (length (calls w)))) of
          Some e \<Rightarrow> (Raise e, w1\<lparr>calls := calls w1 @ [DeleteTable (temp_table_id E tid (length (calls w)))]\<rparr>)
        | None \<Rightarrow> (Return (),
              w1\<lparr>calls := calls w1 @ [DeleteTable (temp_table_id E tid (length (calls w)))],
                 tables := (tables w1)(temp_table_id E tid (length (calls w)) := None)\<rparr>))"
proof -
  let ?temp = "temp_table_id E tid (length (calls w))"
  let ?h = "\<lambda>e w1. (Return (), log ERROR (''BigQuery Merge Failed for '' @ tid @ '': '' @ str_exn e) w1)"
  from merge_attempt_caught [of E tid rows ?temp w] obtain w1 l m cs where
    1: "try_except (merge_attempt E tid rows ?temp) ?h w = (Return (), w1)"
    and 2: "logs w1 = logs w @ [(l, m)]"
           "case fst (merge_attempt E tid rows ?temp w) of Raise e \<Rightarrow> l = ERROR | other \<Rightarrow> l = INFO"
           "calls w1 = calls w @ cs" "DeleteTable ?temp \<notin> set cs"
    by blast
  have "execute_merge_query E tid rows w =
      (case delete_table E ?temp w1 of
         (Return u, w2) \<Rightarrow> (Return (), w2)
       | (Raise e, w2) \<Rightarrow> (Raise e, w2)
       | (OutOfFuel, w2) \<Rightarrow> (OutOfFuel, w2))"
    using assms 1
    by (auto simp: execute_merge_query_def try_finally_def Let_def bind_def client_dataset_def)
  then have "execute_merge_query E tid rows w =
       (case fault E (length (calls w1)) (DeleteTable ?temp) of
          Some e \<Rightarrow> (Raise e, w1\<lparr>calls := calls w1 @ [DeleteTable ?temp]\<rparr>)
        | None \<Rightarrow> (Return (), w1\<lparr>calls := calls w1 @ [DeleteTable ?temp],
                 tables := (tables w1)(?temp := None)\<rparr>))"
    by (simp add: delete_table_cases split: option.splits)
  with 2 show ?thesis by blast
qed

text \<open>
  C1, amended: with the dataset identifier configured, for every batch flushed by
  \<open>execute_merge_query\<close> on a non-empty row list, the deletion of the staging table is the
  last call made, on every path (after a merge, after a failed load or merge). When that
  deletion is not refused, the call returns without raising, the staging table is gone, and
  the log has grown by exactly one line: an \<open>ERROR\<close> line when the load or the merge
  raised, the \<open>INFO\<close> line of the merge otherwise. When the deletion itself fails, its
  exception is what the call raises.
\<close>

theorem C1_staging_cleanup:
  assumes "rows \<noteq> []" and "dataset_id E \<noteq> None"
  shows "case execute_merge_query E tid rows w of (r, w') \<Rightarrow>
     calls w' \<noteq> [] \<and> last (calls w') = DeleteTable (temp_table_id E tid (length (calls w))) \<and>
     (case fault E (length (calls w') - 1) (DeleteTable (temp_table_id E tid (length (calls w)))) of
        None \<Rightarrow> r = Return () \<and> tables w' (temp_table_id E tid (length (calls w))) = None \<and>
                (\<exists>l m. logs w' = logs w @ [(l, m)] \<and>
                   (case fst (merge_attempt E tid rows (temp_table_id E tid (length (calls w))) w) of
                      Raise e \<Rightarrow> l = ERROR | other \<Rightarrow> l = INFO))
      | Some e \<Rightarrow> r = Raise e)"
proof -
  from execute_merge_query_shape [OF assms, where tid = tid and w = w] obtain w1 l m cs where
    1: "logs w1 = logs w @ [(l, m)]"
       "case fst (merge_attempt E tid rows (temp_table_id E tid (length (calls w))) w) of
          Raise e \<Rightarrow> l = ERROR | other \<Rightarrow> l = INFO"
    and 2: "execute_merge_query E tid rows w =
       (case fault E (length (calls w1)) (DeleteTable (temp_table_id E tid (length (calls w)))) of
          Some e \<Rightarrow> (Raise e, w1\<lparr>calls := calls w1 @ [DeleteTable (temp_table_id E tid (length (calls w)))]\<rparr>)
        | None \<Rightarrow> (Return (),
              w1\<lparr>calls := calls w1 @ [DeleteTable (temp_table_id E tid (length (calls w)))],
                 tables := (tables w1)(temp_table_id E tid (length (calls w)) := None)\<rparr>))"
    by blast
  show ?thesis
    using 1 by (simp add: 2 split: option.splits)
qed

lemma env0_fields:
  "fault env0 = (\<lambda>t c. None)" "timestamp env0 = (\<lambda>t. 0)" "getpid env0 = 1"
  "dataset_id env0 = Some ''ds''"
  by (simp_all add: env0_def)

lemma execute_env0:
  "execute_merge_query env0 ''t'' [row_a] world0 =
     (Return (),
      \<lparr> calls = [GetTable ''t'', LoadTable ''t_staging_0_1'' [row_a], JobResult ''t_staging_0_1'',
                 MergeQuery ''t'' ''t_staging_0_1'', DeleteTable ''t_staging_0_1''],
        logs = [(INFO, ''Merged 1 manifests into t'')], sleeps = [],
        tables = [''t'' \<mapsto> [row_a]] \<rparr>)"
  by (simp add: execute_merge_query_def client_dataset_def temp0 world0_def try_finally_def try_except_def
      merge_attempt_def bind_def get_table_def load_table_from_json_def job_result_def
      query_result_def delete_table_def remote_def log_def Let_def env0_fields bq_merge_def
      str_nat_small digit_char_def fun_upd_twist)

lemma env_delete_fails_fields:
  "fault env_delete_fails t (DeleteTable x) = Some (OtherException ''Forbidden'')"
  "fault env_delete_fails t (GetTable x) = None"
  "fault env_delete_fails t (LoadTable x rs) = None"
  "fault env_delete_fails t (JobResult x) = None"
  "fault env_delete_fails t (MergeQuery x y) = None"
  "timestamp env_delete_fails = (\<lambda>t. 0)" "getpid env_delete_fails = 1"
  "dataset_id env_delete_fails = Some ''ds''"
  by (simp_all add: env_delete_fails_def env0_def)

lemma temp0_delete_fails: "temp_table_id env_delete_fails ''t'' 0 = ''t_staging_0_1''"
  by (simp add: temp_table_id_def env_delete_fails_fields str_nat_small digit_char_def)

lemma env_no_dataset_fields: "dataset_id env_no_dataset = None"
  by (simp add: env_no_dataset_def)

text \<open>
  C1, as stated: the staging table is deleted on every exit path and the call never raises.
  The \<open>finally\<close> block calls \<open>delete_table\<close> unguarded: when the store refuses the
  deletion, the exception leaves \<open>execute_merge_query\<close> and the staging table stays. And
  lines 109 and 110 stand before the \<open>try\<close>: with \<open>DATASET_ID\<close> unset, which line 47 does
  not test, the call raises before anything is asked of the store.
\<close>

theorem C1_counterexample:
  "fst (execute_merge_query env_delete_fails ''t'' [row_a] world0) = Raise (OtherException ''Forbidden'') \<and>
   tables (snd (execute_merge_query env_delete_fails ''t'' [row_a] world0)) ''t_staging_0_1'' = Some [row_a] \<and>
   dataset_id env_no_dataset = None \<and>
   execute_merge_query env_no_dataset ''t'' [row_a] world0
     = (Raise (OtherException ''Pass a string for dataset_id''), world0) \<and>
   calls world0 = []"
proof -
  have a: "fst (execute_merge_query env_delete_fails ''t'' [row_a] world0) = Raise (OtherException ''Forbidden'') \<and>
   tables (snd (execute_merge_query env_delete_fails ''t'' [row_a] world0)) ''t_staging_0_1'' = Some [row_a]"
    by (simp add: execute_merge_query_def client_dataset_def temp0_delete_fails world0_def try_finally_def try_except_def
      merge_attempt_def bind_def get_table_def load_table_from_json_def job_result_def
      query_result_def delete_table_def remote_def log_def Let_def env_delete_fails_fields
      bq_merge_def)
  have b: "execute_merge_query env_no_dataset ''t'' [row_a] world0
     = (Raise (OtherException ''Pass a string for dataset_id''), world0)"
    by (rule execute_merge_query_unset) (simp_all add: env_no_dataset_fields)
  show ?thesis
    by (intro conjI a [THEN conjunct1] a [THEN conjunct2] env_no_dataset_fields b world0_fields)
qed

text \<open>C1 on a run without failures: the row is merged and the staging table is gone.\<close>

theorem C1_staging_cleanup_witness:
  "[row_a] \<noteq> [] \<and> dataset_id env0 \<noteq> None \<and>
   (case execute_merge_query env0 ''t'' [row_a] world0 of (r, w') \<Rightarrow>
     calls w' \<noteq> [] \<and> last (calls w') = DeleteTable (temp_table_id env0 ''t'' (length (calls world0))) \<and>
     (case fault env0 (length (calls w') - 1) (DeleteTable (temp_table_id env0 ''t'' (length (calls world0)))) of
        None \<Rightarrow> r = Return () \<and> tables w' (temp_table_id env0 ''t'' (length (calls world0))) = None \<and>
                (\<exists>l m. logs w' = logs world0 @ [(l, m)] \<and>
                   (case fst (merge_attempt env0 ''t'' [row_a]
                                (temp_table_id env0 ''t'' (length (calls world0))) world0) of
                      Raise e \<Rightarrow> l = ERROR | other \<Rightarrow> l = INFO))
      | Some e \<Rightarrow> r = Raise e)) \<and>
   fst (execute_merge_query env0 ''t'' [row_a] world0) = Return () \<and>
   tables (snd (execute_merge_query env0 ''t'' [row_a] world0)) ''t'' = Some [row_a] \<and>
   tables (snd (execute_merge_query env0 ''t'' [row_a] world0)) ''t_staging_0_1'' = None"
proof -
  have h: "[row_a] \<noteq> []" by simp
  have d: "dataset_id env0 \<noteq> None" by (simp add: env0_fields)
  have e: "fst (execute_merge_query env0 ''t'' [row_a] world0) = Return () \<and>
   tables (snd (execute_merge_query env0 ''t'' [row_a] world0)) ''t'' = Some [row_a] \<and>
   tables (snd (execute_merge_query env0 ''t'' [row_a] world0)) ''t_staging_0_1'' = None"
    by (simp add: execute_env0)
  show ?thesis
    by (rule conjI [OF h conjI [OF d conjI [OF C1_staging_cleanup [OF h d] e]]])
qed

subsection \<open>C7: the batching buffer\<close>

lemma flush_empty: "buffer b = [] \<Longrightarrow> BigQueryBatcher_flush E b w = (Return (), b, w)"
  by (simp add: BigQueryBatcher_flush_def)

lemma execute_merge_query_not_OutOfFuel:
  "fst (execute_merge_query E tid rows w) \<noteq> OutOfFuel"
proof (cases "rows = []")
  case True
  then show ?thesis by (simp add: execute_merge_query_def)
next
  case False
  show ?thesis
  proof (cases "dataset_id E")
    case None
    with False show ?thesis by (simp add: execute_merge_query_unset)
  next
    case (Some d)
    then have "dataset_id E \<noteq> None" by simp
    from execute_merge_query_shape [OF False this, where tid = tid and w = w] show ?thesis
      by (auto split: option.splits)
  qed
qed

lemma flush_nonempty:
  assumes "buffer b \<noteq> []"
  shows "BigQueryBatcher_flush E b w =
     (case execute_merge_query E (table_id b) (buffer b)
             (log INFO (''Flushing batch of '' @ str_nat (length (buffer b)) @ '' items to ''
                          @ table_id b @ ''...'') w) of
        (r, w1) \<Rightarrow> (r, b\<lparr>buffer := (if r = Return () then [] else buffer b)\<rparr>, w1))"
proof -
  let ?w = "log INFO (''Flushing batch of '' @ str_nat (length (buffer b)) @ '' items to ''
                          @ table_id b @ ''...'') w"
  obtain r w1 where e: "execute_merge_query E (table_id b) (buffer b) ?w = (r, w1)"
    by (cases "execute_merge_query E (table_id b) (buffer b) ?w") auto
  have "r \<noteq> OutOfFuel"
    using execute_merge_query_not_OutOfFuel [of E "table_id b" "buffer b" ?w] e by simp
  then show ?thesis
    using assms e by (cases r) (simp_all add: BigQueryBatcher_flush_def)
qed

lemma add_below:
  "length (buffer b @ rows) < BQ_BATCH_SIZE \<Longrightarrow>
   BigQueryBatcher_add E rows b w = (Return (), b\<lparr>buffer := buffer b @ rows\<rparr>, w)"
  by (simp add: BigQueryBatcher_add_def Let_def)

lemma add_crossing:
  assumes "rows \<noteq> []" and "BQ_BATCH_SIZE \<le> length (buffer b @ rows)"
  shows "BigQueryBatcher_add E rows b w = BigQueryBatcher_flush E (b\<lparr>buffer := buffer b @ rows\<rparr>) w"
  using assms by (simp add: BigQueryBatcher_add_def Let_def)

text \<open>
  C7, amended: an \<open>add\<close> that leaves the accumulator below the threshold of 500 only
  appends (no call is made, the world is unchanged); an \<open>add\<close> of a non-empty list that
  reaches or crosses the threshold makes exactly one sink call, on all accumulated records,
  and the buffer is empty afterwards when that call returns, and still holds them when it
  raises;
  a \<open>flush\<close> on an empty buffer does nothing; and, with the dataset identifier
  configured, a \<open>flush\<close> on a non-empty buffer clears it whenever the sink's deletion of
  the staging table is not refused, whatever happened to the load and the merge, and
  keeps the records when that deletion fails.
\<close>

theorem C7_batching_buffer:
  "(length (buffer b @ rows) < BQ_BATCH_SIZE \<longrightarrow>
      BigQueryBatcher_add E rows b w = (Return (), b\<lparr>buffer := buffer b @ rows\<rparr>, w)) \<and>
   (rows \<noteq> [] \<and> BQ_BATCH_SIZE \<le> length (buffer b @ rows) \<longrightarrow>
      (case execute_merge_query E (table_id b) (buffer b @ rows)
              (log INFO (''Flushing batch of '' @ str_nat (length (buffer b @ rows)) @ '' items to ''
                          @ table_id b @ ''...'') w) of
         (r, w1) \<Rightarrow>
           BigQueryBatcher_add E rows b w =
             (r, b\<lparr>buffer := (if r = Return () then [] else buffer b @ rows)\<rparr>, w1))) \<and>
   (buffer b = [] \<longrightarrow> BigQueryBatcher_flush E b w = (Return (), b, w)) \<and>
   (buffer b \<noteq> [] \<and> dataset_id E \<noteq> None \<longrightarrow>
      (case BigQueryBatcher_flush E b w of
         (r, b', w') \<Rightarrow>
           (case fault E (length (calls w') - 1)
                   (DeleteTable (temp_table_id E (table_id b) (length (calls w)))) of
              None \<Rightarrow> r = Return () \<and> buffer b' = []
            | Some e \<Rightarrow> r = Raise e \<and> buffer b' = buffer b)))"
proof (intro conjI impI)
  assume "length (buffer b @ rows) < BQ_BATCH_SIZE"
  then show "BigQueryBatcher_add E rows b w = (Return (), b\<lparr>buffer := buffer b @ rows\<rparr>, w)"
    by (rule add_below)
next
  assume a: "rows \<noteq> [] \<and> BQ_BATCH_SIZE \<le> length (buffer b @ rows)"
  let ?b = "b\<lparr>buffer := buffer b @ rows\<rparr>"
  have ne: "buffer ?b \<noteq> []" using a by simp
  show "case execute_merge_query E (table_id b) (buffer b @ rows)
              (log INFO (''Flushing batch of '' @ str_nat (length (buffer b @ rows)) @ '' items to ''
                          @ table_id b @ ''...'') w) of
         (r, w1) \<Rightarrow>
           BigQueryBatcher_add E rows b w =
             (r, b\<lparr>buffer := (if r = Return () then [] else buffer b @ rows)\<rparr>, w1)"
    using a flush_nonempty [OF ne, of E w]
    by (simp add: add_crossing split: prod.splits)
next
  assume "buffer b = []"
  then show "BigQueryBatcher_flush E b w = (Return (), b, w)" by (rule flush_empty)
next
  assume nd: "buffer b \<noteq> [] \<and> dataset_id E \<noteq> None"
  then have ne: "buffer b \<noteq> []" and ds: "dataset_id E \<noteq> None" by simp_all
  define wl where "wl = log INFO (''Flushing batch of '' @ str_nat (length (buffer b)) @ '' items to ''
                          @ table_id b @ ''...'') w"
  have c: "calls wl = calls w" by (simp add: wl_def log_def)
  have fl: "BigQueryBatcher_flush E b w =
     (case execute_merge_query E (table_id b) (buffer b) wl of
        (r, w1) \<Rightarrow> (r, b\<lparr>buffer := (if r = Return () then [] else buffer b)\<rparr>, w1))"
    unfolding wl_def by (rule flush_nonempty [OF ne])
  from execute_merge_query_shape [OF ne ds, where w = wl and tid = "table_id b"] obtain w1 where
    2: "execute_merge_query E (table_id b) (buffer b) wl =
       (case fault E (length (calls w1)) (DeleteTable (temp_table_id E (table_id b) (length (calls w)))) of
          Some e \<Rightarrow> (Raise e, w1\<lparr>calls := calls w1 @ [DeleteTable (temp_table_id E (table_id b) (length (calls w)))]\<rparr>)
        | None \<Rightarrow> (Return (),
              w1\<lparr>calls := calls w1 @ [DeleteTable (temp_table_id E (table_id b) (length (calls w)))],
                 tables := (tables w1)(temp_table_id E (table_id b) (length (calls w)) := None)\<rparr>))"
    unfolding c by blast
  show "case BigQueryBatcher_flush E b w of
         (r, b', w') \<Rightarrow>
           (case fault E (length (calls w') - 1)
                   (DeleteTable (temp_table_id E (table_id b) (length (calls w)))) of
              None \<Rightarrow> r = Return () \<and> buffer b' = []
            | Some e \<Rightarrow> r = Raise e \<and> buffer b' = buffer b)"
    by (simp add: fl 2 split: option.splits)
qed

lemma execute_delete_fails:
  assumes "rows \<noteq> []"
  shows "fst (execute_merge_query env_delete_fails tid rows w) = Raise (OtherException ''Forbidden'')"
proof -
  have d: "dataset_id env_delete_fails \<noteq> None" by (simp add: env_delete_fails_fields)
  from execute_merge_query_shape [OF assms d, where w = w and tid = tid] show ?thesis
    by (auto simp: env_delete_fails_fields)
qed

lemma add_delete_fails:
  "replicate 500 row_a \<noteq> [] \<and> BQ_BATCH_SIZE \<le> length (buffer batcher0 @ replicate 500 row_a) \<and>
   fst (BigQueryBatcher_add env_delete_fails (replicate 500 row_a) batcher0 world0)
     = Raise (OtherException ''Forbidden'') \<and>
   buffer (fst (snd (BigQueryBatcher_add env_delete_fails (replicate 500 row_a) batcher0 world0)))
     = replicate 500 row_a \<and>
   buffer (fst (snd (BigQueryBatcher_add env_delete_fails (replicate 500 row_a) batcher0 world0)))
     \<noteq> []"
proof -
  let ?rows = "replicate 500 row_a"
  let ?b = "batcher0\<lparr>buffer := buffer batcher0 @ ?rows\<rparr>"
  have ne: "?rows \<noteq> []" by simp
  have sz: "BQ_BATCH_SIZE \<le> length (buffer batcher0 @ ?rows)"
    by (simp add: BQ_BATCH_SIZE_def)
  have neb: "buffer ?b \<noteq> []" by simp
  define wl where "wl = log INFO (''Flushing batch of '' @ str_nat (length (buffer ?b)) @ '' items to ''
                          @ table_id ?b @ ''...'') world0"
  have fl: "BigQueryBatcher_flush env_delete_fails ?b world0 =
     (case execute_merge_query env_delete_fails (table_id ?b) (buffer ?b) wl of
        (r, w1) \<Rightarrow> (r, ?b\<lparr>buffer := (if r = Return () then [] else buffer ?b)\<rparr>, w1))"
    unfolding wl_def by (rule flush_nonempty [OF neb])
  have r: "fst (execute_merge_query env_delete_fails (table_id ?b) (buffer ?b) wl)
             = Raise (OtherException ''Forbidden'')"
    by (rule execute_delete_fails [OF neb])
  have ad: "BigQueryBatcher_add env_delete_fails ?rows batcher0 world0
             = BigQueryBatcher_flush env_delete_fails ?b world0"
    by (rule add_crossing [OF ne sz])
  obtain x w1 where e: "execute_merge_query env_delete_fails (table_id ?b) (buffer ?b) wl = (x, w1)"
    by (cases "execute_merge_query env_delete_fails (table_id ?b) (buffer ?b) wl") auto
  from r e have x: "x = Raise (OtherException ''Forbidden'')" by simp
  have "fst (BigQueryBatcher_flush env_delete_fails ?b world0) = Raise (OtherException ''Forbidden'') \<and>
        buffer (fst (snd (BigQueryBatcher_flush env_delete_fails ?b world0))) = buffer ?b"
    unfolding fl e x by simp
  then show ?thesis
    unfolding ad using ne sz by (simp add: batcher0_def)
qed

lemma flush_no_dataset:
  "buffer batcher1 \<noteq> [] \<and>
   fst (BigQueryBatcher_flush env_no_dataset batcher1 world0)
     = Raise (OtherException ''Pass a string for dataset_id'') \<and>
   buffer (fst (snd (BigQueryBatcher_flush env_no_dataset batcher1 world0))) = [row_a] \<and>
   calls (snd (snd (BigQueryBatcher_flush env_no_dataset batcher1 world0))) = []"
proof -
  have ne: "buffer batcher1 \<noteq> []" by (simp add: batcher1_def)
  define wl where "wl = log INFO (''Flushing batch of '' @ str_nat (length (buffer batcher1)) @ '' items to ''
                          @ table_id batcher1 @ ''...'') world0"
  have fl: "BigQueryBatcher_flush env_no_dataset batcher1 world0 =
     (case execute_merge_query env_no_dataset (table_id batcher1) (buffer batcher1) wl of
        (r, w1) \<Rightarrow> (r, batcher1\<lparr>buffer := (if r = Return () then [] else buffer batcher1)\<rparr>, w1))"
    unfolding wl_def by (rule flush_nonempty [OF ne])
  have x: "execute_merge_query env_no_dataset (table_id batcher1) (buffer batcher1) wl
     = (Raise (OtherException ''Pass a string for dataset_id''), wl)"
    by (rule execute_merge_query_unset [OF ne env_no_dataset_fields])
  have c: "calls wl = []" by (simp add: wl_def log_def world0_fields)
  show ?thesis
    unfolding fl x using c by (simp add: batcher1_def)
qed

text \<open>
  C7, as stated: after an \<open>add\<close> that crosses the threshold the buffer is empty, and a
  \<open>flush\<close> clears the accumulator whatever the sink did. When the sink raises, \<open>flush\<close> is
  left before \<open>self.buffer = []\<close> and the records are still in the buffer. The sink raises
  when its deletion of the staging table is refused (the \<open>add\<close> of 500 records), and when
  \<open>DATASET_ID\<close> is unset (the \<open>flush\<close> of one record).
\<close>

theorem C7_counterexample:
  "replicate 500 row_a \<noteq> [] \<and> BQ_BATCH_SIZE \<le> length (buffer batcher0 @ replicate 500 row_a) \<and>
   fst (BigQueryBatcher_add env_delete_fails (replicate 500 row_a) batcher0 world0)
     = Raise (OtherException ''Forbidden'') \<and>
   buffer (fst (snd (BigQueryBatcher_add env_delete_fails (replicate 500 row_a) batcher0 world0)))
     = replicate 500 row_a \<and>
   buffer (fst (snd (BigQueryBatcher_add env_delete_fails (replicate 500 row_a) batcher0 world0)))
     \<noteq> [] \<and>
   buffer batcher1 \<noteq> [] \<and>
   fst (BigQueryBatcher_flush env_no_dataset batcher1 world0)
     = Raise (OtherException ''Pass a string for dataset_id'') \<and>
   buffer (fst (snd (BigQueryBatcher_flush env_no_dataset batcher1 world0))) = [row_a] \<and>
   calls (snd (snd (BigQueryBatcher_flush env_no_dataset batcher1 world0))) = []"
  using add_delete_fails flush_no_dataset by blast

lemma env_merge_fails_fields:
  "fault env_merge_fails t (DeleteTable x) = None"
  "fault env_merge_fails t (GetTable x) = None"
  "fault env_merge_fails t (LoadTable x rs) = None"
  "fault env_merge_fails t (JobResult x) = None"
  "fault env_merge_fails t (MergeQuery x y) = Some (OtherException ''BadRequest'')"
  "timestamp env_merge_fails = (\<lambda>t. 0)" "getpid env_merge_fails = 1"
  "dataset_id env_merge_fails = Some ''ds''"
  by (simp_all add: env_merge_fails_def env0_def)

lemma temp0_merge_fails: "temp_table_id env_merge_fails ''t'' 0 = ''t_staging_0_1''"
  by (simp add: temp_table_id_def env_merge_fails_fields str_nat_small digit_char_def)

lemma flush_merge_fails:
  "BigQueryBatcher_flush env_merge_fails batcher1 world0 =
     (Return (), batcher1\<lparr>buffer := []\<rparr>,
      \<lparr> calls = [GetTable ''t'', LoadTable ''t_staging_0_1'' [row_a], JobResult ''t_staging_0_1'',
                 MergeQuery ''t'' ''t_staging_0_1'', DeleteTable ''t_staging_0_1''],
        logs = [(INFO, ''Flushing batch of 1 items to t...''),
                (ERROR, ''BigQuery Merge Failed for t: BadRequest'')], sleeps = [],
        tables = [''t'' \<mapsto> []] \<rparr>)"
  by (simp add: BigQueryBatcher_flush_def batcher1_def execute_merge_query_def client_dataset_def temp0_merge_fails
      world0_def try_finally_def try_except_def
      merge_attempt_def bind_def get_table_def load_table_from_json_def job_result_def
      query_result_def delete_table_def remote_def log_def Let_def env_merge_fails_fields
      str_nat_small digit_char_def fun_upd_twist)

text \<open>
  C7 on concrete runs: one row added to an empty buffer; a flush of an empty buffer; 499
  rows added to a buffer of one; and a flush whose merge is rejected by the store, which
  clears the buffer all the same.
\<close>

theorem C7_batching_buffer_witness:
  "length (buffer batcher0 @ [row_a]) < BQ_BATCH_SIZE \<and>
   BigQueryBatcher_add env0 [row_a] batcher0 world0 = (Return (), batcher0\<lparr>buffer := [row_a]\<rparr>, world0) \<and>
   buffer batcher0 = [] \<and>
   BigQueryBatcher_flush env0 batcher0 world0 = (Return (), batcher0, world0) \<and>
   replicate 499 row_a2 \<noteq> [] \<and> BQ_BATCH_SIZE \<le> length (buffer batcher1 @ replicate 499 row_a2) \<and>
   (case execute_merge_query env_merge_fails (table_id batcher1) (buffer batcher1 @ replicate 499 row_a2)
              (log INFO (''Flushing batch of '' @ str_nat (length (buffer batcher1 @ replicate 499 row_a2))
                          @ '' items to '' @ table_id batcher1 @ ''...'') world0) of
         (r, w1) \<Rightarrow>
           BigQueryBatcher_add env_merge_fails (replicate 499 row_a2) batcher1 world0 =
             (r, batcher1\<lparr>buffer := (if r = Return () then []
                                       else buffer batcher1 @ replicate 499 row_a2)\<rparr>, w1)) \<and>
   buffer batcher1 \<noteq> [] \<and> dataset_id env_merge_fails \<noteq> None \<and>
   (case BigQueryBatcher_flush env_merge_fails batcher1 world0 of
      (r, b', w') \<Rightarrow>
        (case fault env_merge_fails (length (calls w') - 1)
                (DeleteTable (temp_table_id env_merge_fails (table_id batcher1) (length (calls world0)))) of
           None \<Rightarrow> r = Return () \<and> buffer b' = []
         | Some e \<Rightarrow> r = Raise e \<and> buffer b' = buffer batcher1)) \<and>
   fst (BigQueryBatcher_flush env_merge_fails batcher1 world0) = Return () \<and>
   buffer (fst (snd (BigQueryBatcher_flush env_merge_fails batcher1 world0))) = [] \<and>
   logs (snd (snd (BigQueryBatcher_flush env_merge_fails batcher1 world0))) =
     [(INFO, ''Flushing batch of 1 items to t...''),
      (ERROR, ''BigQuery Merge Failed for t: BadRequest'')]"
proof -
  have h1: "length (buffer batcher0 @ [row_a]) < BQ_BATCH_SIZE"
    by (simp add: batcher0_def BQ_BATCH_SIZE_def)
  have h3: "buffer batcher0 = []" by (simp add: batcher0_def)
  have h2: "replicate 499 row_a2 \<noteq> [] \<and> BQ_BATCH_SIZE \<le> length (buffer batcher1 @ replicate 499 row_a2)"
    by (simp add: batcher1_def BQ_BATCH_SIZE_def)
  have h4: "buffer batcher1 \<noteq> [] \<and> dataset_id env_merge_fails \<noteq> None"
    by (simp add: batcher1_def env_merge_fails_fields)
  note A = C7_batching_buffer [of batcher0 "[row_a]" env0 world0]
  note B = C7_batching_buffer [of batcher1 "replicate 499 row_a2" env_merge_fails world0]
  have a1: "BigQueryBatcher_add env0 [row_a] batcher0 world0 = (Return (), batcher0\<lparr>buffer := [row_a]\<rparr>, world0)"
    using A [THEN conjunct1, THEN mp, OF h1] by (simp add: batcher0_def)
  have a3: "BigQueryBatcher_flush env0 batcher0 world0 = (Return (), batcher0, world0)"
    by (rule A [THEN conjunct2, THEN conjunct2, THEN conjunct1, THEN mp, OF h3])
  have a2: "case execute_merge_query env_merge_fails (table_id batcher1) (buffer batcher1 @ replicate 499 row_a2)
              (log INFO (''Flushing batch of '' @ str_nat (length (buffer batcher1 @ replicate 499 row_a2))
                          @ '' items to '' @ table_id batcher1 @ ''...'') world0) of
         (r, w1) \<Rightarrow>
           BigQueryBatcher_add env_merge_fails (replicate 499 row_a2) batcher1 world0 =
             (r, batcher1\<lparr>buffer := (if r = Return () then []
                                       else buffer batcher1 @ replicate 499 row_a2)\<rparr>, w1)"
    by (rule B [THEN conjunct2, THEN conjunct1, THEN mp, OF h2])
  have a5: "(case BigQueryBatcher_flush env_merge_fails batcher1 world0 of
         (r, b', w') \<Rightarrow>
           (case fault env_merge_fails (length (calls w') - 1)
                   (DeleteTable (temp_table_id env_merge_fails (table_id batcher1) (length (calls world0)))) of
              None \<Rightarrow> r = Return () \<and> buffer b' = []
            | Some e \<Rightarrow> r = Raise e \<and> buffer b' = buffer batcher1))"
    by (rule B [THEN conjunct2, THEN conjunct2, THEN conjunct2, THEN mp, OF h4])
  have a4: "fst (BigQueryBatcher_flush env_merge_fails batcher1 world0) = Return () \<and>
   buffer (fst (snd (BigQueryBatcher_flush env_merge_fails batcher1 world0))) = [] \<and>
   logs (snd (snd (BigQueryBatcher_flush env_merge_fails batcher1 world0))) =
     [(INFO, ''Flushing batch of 1 items to t...''),
      (ERROR, ''BigQuery Merge Failed for t: BadRequest'')]"
    by (simp add: flush_merge_fails)
  show ?thesis
    by (intro conjI h1 a1 h3 a3 h2 [THEN conjunct1] h2 [THEN conjunct2] a2
        h4 [THEN conjunct1] h4 [THEN conjunct2] a5
        a4 [THEN conjunct1] a4 [THEN conjunct2, THEN conjunct1] a4 [THEN conjunct2, THEN conjunct2])
qed


subsection \<open>C3: the retry policy\<close>

lemma sleep_fields [simp]:
  "calls (sleep d w) = calls w" "sleeps (sleep d w) = sleeps w @ [d]" "logs (sleep d w) = logs w"
  "tables (sleep d w) = tables w"
  by (simp_all add: sleep_def)

lemma retrying_last:
  "retrying fn 3 w =
     (case fn w of
        (Raise e, w1) \<Rightarrow>
          if \<not> retry_if_exception_type e then (Raise e, w1) else (Raise (RetryError e), w1)
      | (r, w1) \<Rightarrow> (r, w1))"
  by (subst retrying.simps) (simp add: stop_after_attempt_def split: prod.splits outcome.splits)

lemma retrying_first:
  "fn w = (Raise e, w1) \<Longrightarrow> retry_if_exception_type e \<Longrightarrow>
   retrying fn 1 w = retrying fn 2 (sleep (wait_exponential 1) w1)"
  by (subst retrying.simps) (simp add: stop_after_attempt_def numeral_2_eq_2)

lemma retrying_second:
  "fn w = (Raise e, w1) \<Longrightarrow> retry_if_exception_type e \<Longrightarrow>
   retrying fn 2 w = retrying fn 3 (sleep (wait_exponential 2) w1)"
  by (subst retrying.simps) (simp add: stop_after_attempt_def numeral_3_eq_3 numeral_2_eq_2)

lemma retrying_final:
  "fn w = (r, w1) \<Longrightarrow> final r \<Longrightarrow> k \<le> 3 \<Longrightarrow> retrying fn k w = (r, w1)"
  by (subst retrying.simps) (auto simp: final_def split: outcome.splits)

lemma not_final: "\<not> final r \<Longrightarrow> \<exists>e. r = Raise e \<and> retry_if_exception_type e"
  by (auto simp: final_def split: outcome.splits)

text \<open>
  A run of the decorated call: the worlds \<open>ws\<close> in which the function is invoked, each
  reached from the one before by a retried failure and a sleep.
\<close>

lemma retrying_run:
  assumes one_call: "\<forall>v. calls (snd (fn v)) = calls v @ [c]"
    and quiet: "\<forall>v. sleeps (snd (fn v)) = sleeps v"
  shows "case retrying fn 1 w of (r, w') \<Rightarrow>
     (\<exists>n ws. 1 \<le> n \<and> n \<le> 3 \<and> length ws = n \<and> ws ! 0 = w \<and>
        (\<forall>k. Suc k < n \<longrightarrow>
           (\<exists>e. fst (fn (ws ! k)) = Raise e \<and> retry_if_exception_type e) \<and>
           ws ! Suc k = sleep (wait_exponential (Suc k)) (snd (fn (ws ! k)))) \<and>
        calls w' = calls w @ replicate n c \<and>
        sleeps w' = sleeps w @ map wait_exponential [1..<n] \<and>
        (fn (last ws) = (r, w') \<and> (\<forall>e. r = Raise e \<longrightarrow> \<not> retry_if_exception_type e)
         \<or> (\<exists>e. fn (last ws) = (Raise e, w') \<and> retry_if_exception_type e \<and> n = 3 \<and>
                 r = Raise (RetryError e))))"
proof -
  obtain r1 w1 where f1: "fn w = (r1, w1)" by (cases "fn w") auto
  have c1: "calls w1 = calls w @ [c]" and s1: "sleeps w1 = sleeps w"
    using one_call [rule_format, of w] quiet [rule_format, of w] f1 by simp_all
  show ?thesis
  proof (cases "final r1")
    case True
    then have "retrying fn 1 w = (r1, w1)" using f1 by (simp add: retrying_final)
    moreover have "\<forall>e. r1 = Raise e \<longrightarrow> \<not> retry_if_exception_type e"
      using True by (auto simp: final_def)
    ultimately show ?thesis
      using f1 c1 s1
      by (auto intro!: exI [of _ "Suc 0"] exI [of _ "[w]"])
  next
    case False
    then obtain e1 where e1: "r1 = Raise e1" "retry_if_exception_type e1"
      using not_final by blast
    define v1 where "v1 = sleep (wait_exponential 1) w1"
    have step1: "retrying fn 1 w = retrying fn 2 v1"
      unfolding v1_def using f1 e1 by (simp only: retrying_first)
    obtain r2 w2 where f2: "fn v1 = (r2, w2)" by (cases "fn v1") auto
    have c2: "calls w2 = calls w @ [c, c]" and s2: "sleeps w2 = sleeps w @ [wait_exponential 1]"
      using one_call [rule_format, of v1] quiet [rule_format, of v1] f2 c1 s1
      by (simp_all add: v1_def)
    show ?thesis
    proof (cases "final r2")
      case True
      then have "retrying fn 1 w = (r2, w2)" using f2 step1 by (simp add: retrying_final)
      moreover have "\<forall>e. r2 = Raise e \<longrightarrow> \<not> retry_if_exception_type e"
        using True by (auto simp: final_def)
      ultimately show ?thesis
        using f1 f2 c2 s2 e1 v1_def
        by (auto intro!: exI [of _ "Suc (Suc 0)"] exI [of _ "[w, v1]"])
    next
      case False
      then obtain e2 where e2: "r2 = Raise e2" "retry_if_exception_type e2"
        using not_final by blast
      define v2 where "v2 = sleep (wait_exponential 2) w2"
      have step2: "retrying fn 2 v1 = retrying fn 3 v2"
        unfolding v2_def using f2 e2 by (simp only: retrying_second)
      obtain r3 w3 where f3: "fn v2 = (r3, w3)" by (cases "fn v2") auto
      have c3: "calls w3 = calls w @ [c, c, c]"
        and s3: "sleeps w3 = sleeps w @ [wait_exponential 1, wait_exponential 2]"
        using one_call [rule_format, of v2] quiet [rule_format, of v2] f3 c2 s2
        by (simp_all add: v2_def)
      have tr: "\<forall>k. Suc k < Suc (Suc (Suc 0)) \<longrightarrow>
           (\<exists>e. fst (fn ([w, v1, v2] ! k)) = Raise e \<and> retry_if_exception_type e) \<and>
           [w, v1, v2] ! Suc k = sleep (wait_exponential (Suc k)) (snd (fn ([w, v1, v2] ! k)))"
        using f1 f2 e1 e2 v1_def v2_def by (auto simp: less_Suc_eq numeral_2_eq_2)
      show ?thesis
      proof (cases "final r3")
        case True
        then have "retrying fn 1 w = (r3, w3)"
          using f3 step1 step2 by (simp add: retrying_final)
        moreover have "\<forall>e. r3 = Raise e \<longrightarrow> \<not> retry_if_exception_type e"
          using True by (auto simp: final_def)
        ultimately show ?thesis
          using f3 c3 s3 tr
          by (auto intro!: exI [of _ "Suc (Suc (Suc 0))"] exI [of _ "[w, v1, v2]"]
              simp: numeral_3_eq_3 numeral_2_eq_2)
      next
        case False
        then obtain e3 where e3: "r3 = Raise e3" "retry_if_exception_type e3"
          using not_final by blast
        have "retrying fn 1 w = (Raise (RetryError e3), w3)"
          using f3 e3 step1 step2 by (simp add: retrying_last)
        then show ?thesis
          using f3 c3 s3 e3 tr
          by (auto intro!: exI [of _ "Suc (Suc (Suc 0))"] exI [of _ "[w, v1, v2]"]
              simp: numeral_3_eq_3 numeral_2_eq_2)
      qed
    qed
  qed
qed

lemma get_manifest_content_wrapped_calls:
  "calls (snd (get_manifest_content_wrapped E sid ss w)) = calls w @ [GetContent (subject_of ss) sid]"
  by (simp add: get_manifest_content_wrapped_def remote_def log_def Let_def
      split: option.splits exn.splits)

lemma get_manifest_content_wrapped_sleeps:
  "sleeps (snd (get_manifest_content_wrapped E sid ss w)) = sleeps w"
  by (simp add: get_manifest_content_wrapped_def remote_def log_def Let_def
      split: option.splits exn.splits)

lemma env_500_fault: "fault env_500 t (GetContent u sid) = Some (HttpError 500)"
  by (simp add: env_500_def env0_def)

lemma wrapped_500:
  assumes "\<And>t. fault E t (GetContent (subject_of ss) sid) = Some (HttpError 500)"
  shows "get_manifest_content_wrapped E sid ss w =
     (Raise (HttpError 500), w\<lparr>calls := calls w @ [GetContent (subject_of ss) sid]\<rparr>)"
  by (simp add: get_manifest_content_wrapped_def remote_def Let_def assms)

lemma wait_exponential_1_2:
  "wait_exponential 1 = 2" "wait_exponential 2 = 2" "wait_exponential (Suc 0) = 2"
  by (simp_all add: wait_exponential_def)

lemma get_manifest_content_500:
  assumes f: "\<And>t. fault E t (GetContent (subject_of ss) sid) = Some (HttpError 500)"
  shows "get_manifest_content E sid ss w =
     (Raise (RetryError (HttpError 500)),
      w\<lparr>calls := calls w @ [GetContent (subject_of ss) sid, GetContent (subject_of ss) sid,
                             GetContent (subject_of ss) sid],
        sleeps := sleeps w @ [2, 2]\<rparr>)"
proof -
  let ?c = "GetContent (subject_of ss) sid"
  let ?fn = "get_manifest_content_wrapped E sid ss"
  note wr = wrapped_500 [of E ss sid, OF f]
  have 1: "retrying ?fn 1 w = retrying ?fn 2 (sleep 2 (w\<lparr>calls := calls w @ [?c]\<rparr>))"
    using retrying_first [of ?fn w "HttpError 500", OF wr]
    by (simp add: wait_exponential_1_2)
  have 2: "retrying ?fn 2 (sleep 2 (w\<lparr>calls := calls w @ [?c]\<rparr>))
        = retrying ?fn 3 (sleep 2 (sleep 2 (w\<lparr>calls := calls w @ [?c]\<rparr>)
                                     \<lparr>calls := calls w @ [?c, ?c]\<rparr>))"
    using retrying_second [of ?fn "sleep 2 (w\<lparr>calls := calls w @ [?c]\<rparr>)" "HttpError 500",
        OF wr]
    by (simp add: wait_exponential_1_2)
  show ?thesis
    unfolding get_manifest_content_def 1 2
    by (simp add: retrying_last wr sleep_def)
qed










subsection \<open>C6: the manifest extractor\<close>

lemma find_manifest_absent:
  "\<not> list_ex (\<lambda>f. cf_name f = ''appsscript'' \<and> cf_type f = ''JSON'') fs \<Longrightarrow> find_manifest fs = None"
  by (induction fs) auto

text \<open>
  C6, amended: one invocation of the body of \<open>get_manifest_content\<close> makes one
  \<open>getContent\<close> call. When the call succeeds, the result is the source of the first file
  named \<open>appsscript\<close> of type \<open>JSON\<close>, and absent (\<open>None\<close>) when there is no such file,
  with nothing logged. When it fails with an \<open>HttpError\<close>, that error is re-raised, whatever
  its status, and a warning is logged when the status is 403 or 404. Every other exception
  is logged as an error and converted to absent.
\<close>

theorem C6_manifest_extractor:
  "case get_manifest_content_wrapped E sid ss w of (r, w') \<Rightarrow>
     calls w' = calls w @ [GetContent (subject_of ss) sid] \<and>
     (case fault E (length (calls w)) (GetContent (subject_of ss) sid) of
        None \<Rightarrow>
          r = Return (find_manifest (get_content_r E (length (calls w)) (subject_of ss) sid)) \<and>
          logs w' = logs w \<and>
          (\<not> list_ex (\<lambda>f. cf_name f = ''appsscript'' \<and> cf_type f = ''JSON'')
                (get_content_r E (length (calls w)) (subject_of ss) sid)
             \<longrightarrow> r = Return None)
      | Some (HttpError status) \<Rightarrow>
          r = Raise (HttpError status) \<and>
          (if status = 403 \<or> status = 404 then \<exists>m. logs w' = logs w @ [(WARNING, m)]
           else logs w' = logs w)
      | Some e \<Rightarrow> r = Return None \<and> (\<exists>m. logs w' = logs w @ [(ERROR, m)]))"
  by (auto simp: get_manifest_content_wrapped_def remote_def log_def Let_def find_manifest_absent
      split: option.splits exn.splits)

text \<open>
  C6, as stated: every failure other than HTTP 403/404 is converted to absent. An HTTP 500
  is an \<open>HttpError\<close> too: the first \<open>except\<close> clause re-raises it, without a log line,
  and the decorated function raises as well.
\<close>

theorem C6_counterexample:
  "fault env_500 (length (calls world0)) (GetContent ''u@x'' ''s1'') = Some (HttpError 500) \<and>
   fst (get_manifest_content_wrapped env_500 ''s1'' script_service0 world0) = Raise (HttpError 500) \<and>
   fst (get_manifest_content_wrapped env_500 ''s1'' script_service0 world0) \<noteq> Return None \<and>
   logs (snd (get_manifest_content_wrapped env_500 ''s1'' script_service0 world0)) = [] \<and>
   fst (get_manifest_content env_500 ''s1'' script_service0 world0) \<noteq> Return None"
  by (simp add: get_manifest_content_500 [OF env_500_fault] wrapped_500 [OF env_500_fault]
      env_500_fault world0_def)

text \<open>C6 on a script that holds one code file and no manifest.\<close>

theorem C6_manifest_extractor_witness:
  "\<not> list_ex (\<lambda>f. cf_name f = ''appsscript'' \<and> cf_type f = ''JSON'')
        (get_content_r env_other (length (calls world0)) (subject_of script_service0) ''s1'') \<and>
   fault env_other (length (calls world0)) (GetContent (subject_of script_service0) ''s1'') = None \<and>
   get_manifest_content_wrapped env_other ''s1'' script_service0 world0 =
     (Return None, world0\<lparr>calls := [GetContent ''u@x'' ''s1'']\<rparr>)"
proof -
  have h: "\<not> list_ex (\<lambda>f. cf_name f = ''appsscript'' \<and> cf_type f = ''JSON'')
        (get_content_r env_other (length (calls world0)) (subject_of script_service0) ''s1'')"
    by (simp add: env_other_def env0_def)
  have f: "fault env_other (length (calls world0)) (GetContent (subject_of script_service0) ''s1'') = None"
    by (simp add: env_other_def env0_def)
  have c: "calls world0 = []" by (simp add: world0_def)
  obtain r w' where e: "get_manifest_content_wrapped env_other ''s1'' script_service0 world0 = (r, w')"
    by (cases "get_manifest_content_wrapped env_other ''s1'' script_service0 world0") auto
  have "r = Return None"
    using C6_manifest_extractor [where E = env_other and sid = "''s1''" and ss = script_service0
        and w = world0] h f e by auto
  moreover have "w' = world0\<lparr>calls := [GetContent ''u@x'' ''s1'']\<rparr>"
    using e f by (simp add: get_manifest_content_wrapped_def remote_def Let_def c script_service0_def
        split: option.splits)
  ultimately show ?thesis using h f e by simp
qed


subsection \<open>Facts about the scan\<close>

lemma get_manifest_content_wrapped_not_OutOfFuel:
  "fst (get_manifest_content_wrapped E sid ss w) \<noteq> OutOfFuel"
  by (simp add: get_manifest_content_wrapped_def remote_def Let_def
      split: option.splits exn.splits)

text \<open>What the decorated function leaves behind: between one and three content calls.\<close>

lemma get_manifest_content_shape:
  "\<exists>r w' n. get_manifest_content E sid ss w = (r, w') \<and> r \<noteq> OutOfFuel \<and> 1 \<le> n \<and> n \<le> 3 \<and>
     calls w' = calls w @ replicate n (GetContent (subject_of ss) sid)"
proof -
  let ?fn = "get_manifest_content_wrapped E sid ss"
  let ?c = "GetContent (subject_of ss) sid"
  have 1: "\<forall>v. calls (snd (?fn v)) = calls v @ [?c]"
    by (simp add: get_manifest_content_wrapped_calls)
  have 2: "\<forall>v. sleeps (snd (?fn v)) = sleeps v"
    by (simp add: get_manifest_content_wrapped_sleeps)
  obtain r w' where e: "retrying ?fn 1 w = (r, w')" by (cases "retrying ?fn 1 w") auto
  from retrying_run [OF 1 2, of w] e obtain n ws where
    n: "1 \<le> n" "n \<le> 3" "calls w' = calls w @ replicate n ?c"
    and d: "?fn (last ws) = (r, w') \<or> (\<exists>e. r = Raise (RetryError e))"
    by auto
  have "r \<noteq> OutOfFuel"
    using d get_manifest_content_wrapped_not_OutOfFuel [of E sid ss "last ws"] by auto
  with n e show ?thesis by (auto simp: get_manifest_content_def)
qed

lemma get_impersonated_service_cases:
  "get_impersonated_service E api ver subj w =
     (case fault E (length (calls w)) (Acquire api ver subj) of
        None \<Rightarrow> (Return (Some (Service api ver subj)), w\<lparr>calls := calls w @ [Acquire api ver subj]\<rparr>)
      | Some e \<Rightarrow>
          (Return None,
           log ERROR (''Auth Error for '' @ subj @ '' on API '' @ api @ '': '' @ str_exn e)
             (w\<lparr>calls := calls w @ [Acquire api ver subj]\<rparr>)))"
  by (simp add: get_impersonated_service_def try_except_def bind_def remote_def Let_def
      split: option.splits)

lemma log_fields [simp]:
  "calls (log l m w) = calls w" "logs (log l m w) = logs w @ [(l, m)]"
  "sleeps (log l m w) = sleeps w" "tables (log l m w) = tables w"
  by (simp_all add: log_def)

text \<open>The \<open>for\<close> loop never raises, keeps what was accumulated, and asks for every script.\<close>

lemma scan_files_shape:
  "\<exists>new w' cs. scan_files E ss u fs rows w = (Return (), rows @ new, w') \<and>
     calls w' = calls w @ cs \<and>
     (\<forall>f \<in> set fs. GetContent (subject_of ss) (file_id f) \<in> set cs) \<and>
     (\<forall>row \<in> set new. manifest_content row \<noteq> [])"
proof (induction fs arbitrary: rows w)
  case Nil
  then show ?case by simp
next
  case (Cons f fs)
  from get_manifest_content_shape [of E "file_id f" ss w] obtain r w1 n where
    g: "get_manifest_content E (file_id f) ss w = (r, w1)" "r \<noteq> OutOfFuel" "1 \<le> n"
       "calls w1 = calls w @ replicate n (GetContent (subject_of ss) (file_id f))"
    by blast
  have mem: "GetContent (subject_of ss) (file_id f)
               \<in> set (replicate n (GetContent (subject_of ss) (file_id f)))"
    using g(3) by simp
  define rows1 where "rows1 =
     (case r of
        Return (Some content) \<Rightarrow>
          if content = [] then rows
          else rows @ [\<lparr> script_id = file_id f, script_name = file_name f, owner_email = u,
                         manifest_content = content,
                         extraction_date = utcnow_isoformat E (length (calls w1)) \<rparr>]
      | other \<Rightarrow> rows)"
  have step: "scan_files E ss u (f # fs) rows w = scan_files E ss u fs rows1 w1"
    using g(1,2) by (auto simp: rows1_def split: outcome.splits option.splits)
  have "\<exists>new1. rows1 = rows @ new1 \<and> (\<forall>row \<in> set new1. manifest_content row \<noteq> [])"
    by (simp add: rows1_def split: outcome.splits option.splits)
  then obtain new1 where n1: "rows1 = rows @ new1" "\<forall>row \<in> set new1. manifest_content row \<noteq> []"
    by blast
  from Cons.IH [of rows1 w1] obtain new w' cs where
    ih: "scan_files E ss u fs rows1 w1 = (Return (), rows1 @ new, w')"
        "calls w' = calls w1 @ cs"
        "\<forall>f \<in> set fs. GetContent (subject_of ss) (file_id f) \<in> set cs"
        "\<forall>row \<in> set new. manifest_content row \<noteq> []"
    by blast
  show ?case
    apply (rule exI [of _ "new1 @ new"], rule exI [of _ w'],
        rule exI [of _ "replicate n (GetContent (subject_of ss) (file_id f)) @ cs"])
    using step ih n1 g(4) mem by auto
qed

lemma files_loop_Suc:
  "files_loop E (Suc n) ds ss u tok rows w =
     (case fault E (length (calls w)) (FilesList (subject_of ds) tok) of
        Some e \<Rightarrow> (Raise e, rows, w\<lparr>calls := calls w @ [FilesList (subject_of ds) tok]\<rparr>)
      | None \<Rightarrow>
          (case scan_files E ss u (fp_files (files_list_r E (length (calls w)) (subject_of ds) tok))
                  rows (w\<lparr>calls := calls w @ [FilesList (subject_of ds) tok]\<rparr>) of
             (r, rows1, w2) \<Rightarrow>
               if \<not> truthy (fp_nextPageToken (files_list_r E (length (calls w)) (subject_of ds) tok))
               then (Return (), rows1, w2)
               else files_loop E n ds ss u
                      (fp_nextPageToken (files_list_r E (length (calls w)) (subject_of ds) tok))
                      rows1 w2))"
proof (cases "fault E (length (calls w)) (FilesList (subject_of ds) tok)")
  case (Some e)
  then show ?thesis by (simp add: remote_def Let_def)
next
  case None
  let ?w1 = "w\<lparr>calls := calls w @ [FilesList (subject_of ds) tok]\<rparr>"
  let ?res = "files_list_r E (length (calls w)) (subject_of ds) tok"
  from scan_files_shape [of E ss u "fp_files ?res" rows ?w1] obtain new w2 where
    "scan_files E ss u (fp_files ?res) rows ?w1 = (Return (), rows @ new, w2)"
    by blast
  with None show ?thesis by (simp add: remote_def Let_def)
qed

lemma files_loop_shape:
  "\<exists>r new w'. files_loop E fuel ds ss u tok rows w = (r, rows @ new, w') \<and>
     (\<forall>row \<in> set new. manifest_content row \<noteq> []) \<and>
     length (calls w) \<le> length (calls w') \<and>
     (\<forall>e. r = Raise e \<longrightarrow>
        calls w' \<noteq> [] \<and>
        (\<exists>tok'. last (calls w') = FilesList (subject_of ds) tok' \<and>
           fault E (length (calls w') - 1) (FilesList (subject_of ds) tok') = Some e))"
proof (induction fuel arbitrary: tok rows w)
  case 0
  show ?case by simp
next
  case (Suc n)
  let ?c = "FilesList (subject_of ds) tok"
  let ?w1 = "w\<lparr>calls := calls w @ [?c]\<rparr>"
  let ?res = "files_list_r E (length (calls w)) (subject_of ds) tok"
  show ?case
  proof (cases "fault E (length (calls w)) ?c")
    case (Some e)
    then show ?thesis by (simp add: files_loop_Suc del: files_loop.simps)
  next
    case None
    from scan_files_shape [of E ss u "fp_files ?res" rows ?w1] obtain new1 w2 cs where
      sc: "scan_files E ss u (fp_files ?res) rows ?w1 = (Return (), rows @ new1, w2)"
          "calls w2 = calls ?w1 @ cs" "\<forall>row \<in> set new1. manifest_content row \<noteq> []"
      by blast
    show ?thesis
    proof (cases "truthy (fp_nextPageToken ?res)")
      case False
      with None sc show ?thesis
        by (simp add: files_loop_Suc del: files_loop.simps)
    next
      case True
      from Suc.IH [of "fp_nextPageToken ?res" "rows @ new1" w2] obtain r new w' where
        ih: "files_loop E n ds ss u (fp_nextPageToken ?res) (rows @ new1) w2
               = (r, (rows @ new1) @ new, w')"
            "\<forall>row \<in> set new. manifest_content row \<noteq> []"
            "length (calls w2) \<le> length (calls w')"
            "\<forall>e. r = Raise e \<longrightarrow>
               calls w' \<noteq> [] \<and>
               (\<exists>tok'. last (calls w') = FilesList (subject_of ds) tok' \<and>
                  fault E (length (calls w') - 1) (FilesList (subject_of ds) tok') = Some e)"
        by blast
      have "files_loop E (Suc n) ds ss u tok rows w = (r, rows @ (new1 @ new), w')"
        using None sc(1) True ih(1) by (simp add: files_loop_Suc del: files_loop.simps)
      moreover have "\<forall>row \<in> set (new1 @ new). manifest_content row \<noteq> []"
        using sc(3) ih(2) by auto
      moreover have "length (calls w) \<le> length (calls w')"
        using sc(2) ih(3) by simp
      ultimately show ?thesis using ih(4) by blast
    qed
  qed
qed

lemma files_loop_returns:
  assumes "paging_ends E B"
  shows "B < Suc n + length (calls w) \<Longrightarrow> fst (files_loop E (Suc n) ds ss u tok rows w) \<noteq> OutOfFuel"
proof (induction n arbitrary: tok rows w)
  case 0
  let ?c = "FilesList (subject_of ds) tok"
  let ?res = "files_list_r E (length (calls w)) (subject_of ds) tok"
  from 0 have "B \<le> length (calls w)" by simp
  with assms have nt: "\<not> truthy (fp_nextPageToken ?res)" by (simp add: paging_ends_def)
  show ?case
    using nt by (simp add: files_loop_Suc del: files_loop.simps split: option.splits prod.splits)
next
  case (Suc n)
  let ?c = "FilesList (subject_of ds) tok"
  let ?w1 = "w\<lparr>calls := calls w @ [?c]\<rparr>"
  let ?res = "files_list_r E (length (calls w)) (subject_of ds) tok"
  from scan_files_shape [of E ss u "fp_files ?res" rows ?w1] obtain new1 w2 cs where
    sc: "scan_files E ss u (fp_files ?res) rows ?w1 = (Return (), rows @ new1, w2)"
        "calls w2 = calls ?w1 @ cs"
    by blast
  have "B < Suc n + length (calls w2)" using Suc.prems sc(2) by simp
  from Suc.IH [OF this, of "fp_nextPageToken ?res" "rows @ new1"]
  have ih: "fst (files_loop E (Suc n) ds ss u (fp_nextPageToken ?res) (rows @ new1) w2) \<noteq> OutOfFuel" .
  show ?case
    apply (subst files_loop_Suc)
    using sc(1) ih by (simp split: option.splits)
qed

lemma scan_user_for_manifests_cases:
  "scan_user_for_manifests E fuel u w =
     (case (fault E (length (calls w)) (Acquire ''drive'' ''v3'' u),
            fault E (Suc (length (calls w))) (Acquire ''script'' ''v1'' u)) of
        (None, None) \<Rightarrow>
          (case files_loop E fuel (Service ''drive'' ''v3'' u) (Service ''script'' ''v1'' u) u None []
                  (w\<lparr>calls := calls w @ [Acquire ''drive'' ''v3'' u, Acquire ''script'' ''v1'' u]\<rparr>) of
             (Return x, manifest_rows, w1) \<Rightarrow>
               (Return manifest_rows,
                if manifest_rows \<noteq> []
                then log INFO (''User Scan: Retrieved '' @ str_nat (length manifest_rows)
                                 @ '' manifests for '' @ u @ ''.'') w1
                else w1)
           | (Raise e, manifest_rows, w1) \<Rightarrow>
               (Return manifest_rows,
                log ERROR (''Error scanning user '' @ u @ '': '' @ str_exn e) w1)
           | (OutOfFuel, manifest_rows, w1) \<Rightarrow> (OutOfFuel, w1))
      | (a, b) \<Rightarrow>
          (Return [],
           log WARNING (''Skipping user '' @ u @ '' due to Auth failure.'')
             (snd (get_impersonated_service E ''script'' ''v1'' u
                     (snd (get_impersonated_service E ''drive'' ''v3'' u w))))))"
  by (simp add: scan_user_for_manifests_def bind_def get_impersonated_service_cases
      split: option.splits)

lemma scan_user_for_manifests_shape:
  "\<exists>r w'. scan_user_for_manifests E fuel u w = (r, w') \<and> (\<forall>e. r \<noteq> Raise e) \<and>
     length (calls w) \<le> length (calls w') \<and>
     (\<forall>rows. r = Return rows \<longrightarrow> (\<forall>row \<in> set rows. manifest_content row \<noteq> []))"
proof -
  let ?w2 = "w\<lparr>calls := calls w @ [Acquire ''drive'' ''v3'' u, Acquire ''script'' ''v1'' u]\<rparr>"
  from files_loop_shape [of E fuel "Service ''drive'' ''v3'' u" "Service ''script'' ''v1'' u" u None "[]" ?w2]
  obtain r new w' where
    fl: "files_loop E fuel (Service ''drive'' ''v3'' u) (Service ''script'' ''v1'' u) u None [] ?w2
           = (r, new, w')"
        "\<forall>row \<in> set new. manifest_content row \<noteq> []"
        "length (calls ?w2) \<le> length (calls w')"
    by auto
  show ?thesis
    using fl
    by (cases r)
       (auto simp: scan_user_for_manifests_cases get_impersonated_service_cases
             split: option.splits)
qed

lemma scan_user_for_manifests_returns:
  assumes "paging_ends E B"
  shows "fst (scan_user_for_manifests E (Suc B) u w) \<noteq> OutOfFuel"
proof -
  let ?w2 = "w\<lparr>calls := calls w @ [Acquire ''drive'' ''v3'' u, Acquire ''script'' ''v1'' u]\<rparr>"
  have "fst (files_loop E (Suc B) (Service ''drive'' ''v3'' u) (Service ''script'' ''v1'' u) u None [] ?w2)
          \<noteq> OutOfFuel"
    by (rule files_loop_returns [OF assms]) simp
  then show ?thesis
    by (auto simp: scan_user_for_manifests_cases split: option.splits prod.splits outcome.splits)
qed

lemma users_loop_Suc:
  "users_loop E (Suc n) tok acc w =
     (case fault E (length (calls w)) (UsersList tok) of
        Some e \<Rightarrow> (Raise e, acc, w\<lparr>calls := calls w @ [UsersList tok]\<rparr>)
      | None \<Rightarrow>
          if \<not> truthy (up_nextPageToken (users_list_r E (length (calls w)) tok))
          then (Return (),
                acc @ filter (\<lambda>u. \<not> suspended u) (up_users (users_list_r E (length (calls w)) tok)),
                w\<lparr>calls := calls w @ [UsersList tok]\<rparr>)
          else users_loop E n (up_nextPageToken (users_list_r E (length (calls w)) tok))
                 (acc @ filter (\<lambda>u. \<not> suspended u) (up_users (users_list_r E (length (calls w)) tok)))
                 (w\<lparr>calls := calls w @ [UsersList tok]\<rparr>))"
  by (simp add: remote_def Let_def split: option.splits)

lemma users_loop_shape:
  "\<exists>r acc' w'. users_loop E fuel tok acc w = (r, acc', w') \<and>
     length (calls w) \<le> length (calls w') \<and>
     (\<forall>e. r = Raise e \<longrightarrow>
        calls w' \<noteq> [] \<and>
        (\<exists>tok'. last (calls w') = UsersList tok' \<and>
           fault E (length (calls w') - 1) (UsersList tok') = Some e))"
proof (induction fuel arbitrary: tok acc w)
  case 0
  show ?case by simp
next
  case (Suc n)
  let ?w1 = "w\<lparr>calls := calls w @ [UsersList tok]\<rparr>"
  let ?res = "users_list_r E (length (calls w)) tok"
  show ?case
  proof (cases "fault E (length (calls w)) (UsersList tok)")
    case (Some e)
    then show ?thesis by (simp add: users_loop_Suc del: users_loop.simps)
  next
    case None
    show ?thesis
    proof (cases "truthy (up_nextPageToken ?res)")
      case False
      with None show ?thesis by (simp add: users_loop_Suc del: users_loop.simps)
    next
      case True
      from Suc.IH [of "up_nextPageToken ?res"
          "acc @ filter (\<lambda>u. \<not> suspended u) (up_users ?res)" ?w1]
      obtain r acc' w' where
        ih: "users_loop E n (up_nextPageToken ?res)
               (acc @ filter (\<lambda>u. \<not> suspended u) (up_users ?res)) ?w1 = (r, acc', w')"
            "length (calls ?w1) \<le> length (calls w')"
            "\<forall>e. r = Raise e \<longrightarrow>
               calls w' \<noteq> [] \<and>
               (\<exists>tok'. last (calls w') = UsersList tok' \<and>
                  fault E (length (calls w') - 1) (UsersList tok') = Some e)"
        by blast
      have "users_loop E (Suc n) tok acc w = (r, acc', w')"
        using None True ih(1) by (simp add: users_loop_Suc del: users_loop.simps)
      moreover have "length (calls w) \<le> length (calls w')" using ih(2) by simp
      ultimately show ?thesis using ih(3) by blast
    qed
  qed
qed

lemma users_loop_returns:
  assumes "paging_ends E B"
  shows "B < Suc n + length (calls w) \<Longrightarrow> fst (users_loop E (Suc n) tok acc w) \<noteq> OutOfFuel"
proof (induction n arbitrary: tok acc w)
  case 0
  from 0 have "B \<le> length (calls w)" by simp
  with assms have "\<not> truthy (up_nextPageToken (users_list_r E (length (calls w)) tok))"
    by (simp add: paging_ends_def)
  then show ?case
    by (simp add: users_loop_Suc del: users_loop.simps split: option.splits)
next
  case (Suc n)
  let ?w1 = "w\<lparr>calls := calls w @ [UsersList tok]\<rparr>"
  let ?res = "users_list_r E (length (calls w)) tok"
  have "B < Suc n + length (calls ?w1)" using Suc.prems by simp
  from Suc.IH [OF this, of "up_nextPageToken ?res"
      "acc @ filter (\<lambda>u. \<not> suspended u) (up_users ?res)"]
  have ih: "fst (users_loop E (Suc n) (up_nextPageToken ?res)
                (acc @ filter (\<lambda>u. \<not> suspended u) (up_users ?res)) ?w1) \<noteq> OutOfFuel" .
  show ?case
    apply (subst users_loop_Suc)
    using ih by (simp split: option.splits)
qed

lemma get_all_domain_users_shape:
  "\<exists>r w'. get_all_domain_users E fuel ds w = (r, w') \<and> (\<forall>e. r \<noteq> Raise e) \<and>
     length (calls w) \<le> length (calls w')"
proof -
  from users_loop_shape [of E fuel None "[]" "log INFO ''Fetching list of all domain users...'' w"]
  obtain r acc' w' where
    "users_loop E fuel None [] (log INFO ''Fetching list of all domain users...'' w) = (r, acc', w')"
    "length (calls w) \<le> length (calls w')"
    by auto
  then show ?thesis
    by (cases r) (auto simp: get_all_domain_users_def)
qed

lemma get_all_domain_users_returns:
  assumes "paging_ends E B"
  shows "fst (get_all_domain_users E (Suc B) ds w) \<noteq> OutOfFuel"
proof -
  have "fst (users_loop E (Suc B) None [] (log INFO ''Fetching list of all domain users...'' w))
          \<noteq> OutOfFuel"
    by (rule users_loop_returns [OF assms]) simp
  then show ?thesis
    by (auto simp: get_all_domain_users_def split: prod.splits outcome.splits)
qed

lemma get_manifest_content_ok:
  assumes "fault E (length (calls w)) (GetContent (subject_of ss) sid) = None"
  shows "get_manifest_content E sid ss w =
     (Return (find_manifest (get_content_r E (length (calls w)) (subject_of ss) sid)),
      w\<lparr>calls := calls w @ [GetContent (subject_of ss) sid]\<rparr>)"
proof -
  have "get_manifest_content_wrapped E sid ss w =
     (Return (find_manifest (get_content_r E (length (calls w)) (subject_of ss) sid)),
      w\<lparr>calls := calls w @ [GetContent (subject_of ss) sid]\<rparr>)"
    using assms by (simp add: get_manifest_content_wrapped_def remote_def Let_def)
  then show ?thesis
    unfolding get_manifest_content_def by (rule retrying_final) (simp_all add: final_def)
qed


subsection \<open>C5: the user scan task\<close>





lemma env_auth_fails_fields:
  "fault env_auth_fails t (Acquire a v x) = Some (OtherException ''denied'')"
  by (simp add: env_auth_fails_def env0_def)





subsection \<open>C10: no record for an empty manifest\<close>

text \<open>
  C10: every record \<open>scan_user_for_manifests\<close> returns has a non-empty
  \<open>manifest_content\<close>; and a script whose extraction succeeds with a falsy content (\<open>None\<close>
  or the empty string) leaves the accumulated records as they are, so that an empty
  manifest file and a missing one give the same records.
\<close>

theorem C10_no_record_for_empty_manifest:
  "(case scan_user_for_manifests E fuel u w of
      (r, w') \<Rightarrow> (\<forall>rows. r = Return rows \<longrightarrow> (\<forall>row \<in> set rows. manifest_content row \<noteq> []))) \<and>
   (\<forall>j w1. get_manifest_content E (file_id f) ss w = (Return j, w1) \<and> \<not> truthy j
      \<longrightarrow> scan_files E ss u (f # fs) rows w = scan_files E ss u fs rows w1)"
proof (intro conjI allI impI)
  from scan_user_for_manifests_shape [of E fuel u w]
  show "case scan_user_for_manifests E fuel u w of
      (r, w') \<Rightarrow> (\<forall>rows. r = Return rows \<longrightarrow> (\<forall>row \<in> set rows. manifest_content row \<noteq> []))"
    by auto
next
  fix j w1
  assume "get_manifest_content E (file_id f) ss w = (Return j, w1) \<and> \<not> truthy j"
  then show "scan_files E ss u (f # fs) rows w = scan_files E ss u fs rows w1"
    by (auto simp: truthy_def split: option.splits)
qed

lemma env_empty_manifest_fields:
  "fault env_empty_manifest t c = None"
  "get_content_r env_empty_manifest t x sid =
     [\<lparr>cf_name = ''appsscript'', cf_type = ''JSON'', cf_source = Some []\<rparr>]"
  "files_list_r env_empty_manifest = one_script"
  by (simp_all add: env_empty_manifest_def env0_def)

lemma env_manifest_fields:
  "fault env_manifest t c = None"
  "get_content_r env_manifest t x sid =
     [\<lparr>cf_name = ''appsscript'', cf_type = ''JSON'', cf_source = Some ''{}''\<rparr>]"
  "files_list_r env_manifest = one_script"
  "utcnow_isoformat env_manifest t = ''d''"
  by (simp_all add: env_manifest_def env0_def)

lemma scan_env_manifest:
  "fst (scan_user_for_manifests env_manifest (Suc 0) ''u@x'' world0) = Return [row_s1]"
  by (simp add: scan_user_for_manifests_cases files_loop_Suc env_manifest_fields one_script_def
      get_manifest_content_ok world0_fields truthy_def row_s1_def
      del: files_loop.simps)

lemma scan_env_empty_manifest:
  "fst (scan_user_for_manifests env_empty_manifest (Suc 0) ''u@x'' world0) = Return []"
  by (simp add: scan_user_for_manifests_cases files_loop_Suc env_empty_manifest_fields one_script_def
      get_manifest_content_ok world0_fields truthy_def
      del: files_loop.simps)

text \<open>C10 on a script with an empty manifest file, and on a script with the manifest \<open>{}\<close>.\<close>

theorem C10_no_record_for_empty_manifest_witness:
  "get_manifest_content env_empty_manifest (file_id file_s1) script_service0 world0
     = (Return (Some []), world0\<lparr>calls := [GetContent ''u@x'' ''s1'']\<rparr>) \<and>
   \<not> truthy (Some []) \<and>
   scan_files env_empty_manifest script_service0 ''u@x'' [file_s1] [] world0
     = (Return (), [], world0\<lparr>calls := [GetContent ''u@x'' ''s1'']\<rparr>) \<and>
   fst (scan_user_for_manifests env_empty_manifest (Suc 0) ''u@x'' world0) = Return [] \<and>
   fst (scan_user_for_manifests env_manifest (Suc 0) ''u@x'' world0) = Return [row_s1] \<and>
   manifest_content row_s1 \<noteq> []"
proof -
  note A = C10_no_record_for_empty_manifest [where E = env_empty_manifest and f = file_s1
      and ss = script_service0 and w = world0 and u = "''u@x''" and fs = "[]" and rows = "[]"]
  note B = C10_no_record_for_empty_manifest [where E = env_manifest and w = world0
      and u = "''u@x''" and fuel = "Suc 0"]
  have g: "get_manifest_content env_empty_manifest (file_id file_s1) script_service0 world0
     = (Return (Some []), world0\<lparr>calls := [GetContent ''u@x'' ''s1'']\<rparr>)"
    by (simp add: get_manifest_content_ok env_empty_manifest_fields world0_fields file_s1_def
        script_service0_def)
  have t: "\<not> truthy (Some [])" by (simp add: truthy_def)
  have "scan_files env_empty_manifest script_service0 ''u@x'' [file_s1] [] world0
     = scan_files env_empty_manifest script_service0 ''u@x'' [] []
         (world0\<lparr>calls := [GetContent ''u@x'' ''s1'']\<rparr>)"
    using A [THEN conjunct2] g t by blast
  then have s: "scan_files env_empty_manifest script_service0 ''u@x'' [file_s1] [] world0
     = (Return (), [], world0\<lparr>calls := [GetContent ''u@x'' ''s1'']\<rparr>)"
    by simp
  have m: "fst (scan_user_for_manifests env_manifest (Suc 0) ''u@x'' world0) = Return [row_s1]"
    by (rule scan_env_manifest)
  have r: "manifest_content row_s1 \<noteq> []"
    using B [THEN conjunct1] m by (auto split: prod.splits)
  show ?thesis
    by (intro conjI g t s scan_env_empty_manifest m r)
qed

subsection \<open>C4: a listing that fails\<close>








subsection \<open>C8: the entry point\<close>

lemma submit_all_returns:
  assumes "paging_ends E B"
  shows "\<exists>futures w'. submit_all E (Suc B) emails w = (Return futures, w')"
proof (induction emails arbitrary: w)
  case Nil
  show ?case by simp
next
  case (Cons email emails)
  from scan_user_for_manifests_shape [of E "Suc B" email w] obtain r w1 where
    sc: "scan_user_for_manifests E (Suc B) email w = (r, w1)" "\<forall>e. r \<noteq> Raise e"
    by blast
  from scan_user_for_manifests_returns [OF assms, of email w] sc
  obtain rows where r: "r = Return rows" by (cases r) auto
  from Cons.IH [of w1] obtain futures w2 where
    ih: "submit_all E (Suc B) emails w1 = (Return futures, w2)" by blast
  show ?case using sc(1) r ih by simp
qed

lemma flush_cases:
  "\<exists>w'. BigQueryBatcher_flush E b w = (Return (), b\<lparr>buffer := []\<rparr>, w') \<or>
        (\<exists>e. BigQueryBatcher_flush E b w = (Raise e, b, w'))"
proof (cases "buffer b = []")
  case True
  then show ?thesis by (auto simp: flush_empty intro!: exI [of _ w])
next
  case False
  define wl where "wl = log INFO (''Flushing batch of '' @ str_nat (length (buffer b)) @ '' items to ''
                          @ table_id b @ ''...'') w"
  have fl: "BigQueryBatcher_flush E b w =
     (case execute_merge_query E (table_id b) (buffer b) wl of
        (r, w1) \<Rightarrow> (r, b\<lparr>buffer := (if r = Return () then [] else buffer b)\<rparr>, w1))"
    unfolding wl_def by (rule flush_nonempty [OF False])
  obtain r w1 where e: "execute_merge_query E (table_id b) (buffer b) wl = (r, w1)"
    by (cases "execute_merge_query E (table_id b) (buffer b) wl") auto
  have "r \<noteq> OutOfFuel"
    using execute_merge_query_not_OutOfFuel [of E "table_id b" "buffer b" wl] e by simp
  then show ?thesis
    unfolding fl e by (cases r) auto
qed

lemma flush_not_OutOfFuel: "fst (BigQueryBatcher_flush E b w) \<noteq> OutOfFuel"
  using flush_cases [of E b w] by auto

lemma add_not_OutOfFuel: "fst (BigQueryBatcher_add E rows b w) \<noteq> OutOfFuel"
  by (simp add: BigQueryBatcher_add_def Let_def flush_not_OutOfFuel)

lemma collect_returns:
  "\<exists>b' w'. collect E futures b w = (Return (), b', w')"
proof (induction futures arbitrary: b w)
  case Nil
  show ?case by simp
next
  case (Cons fu futures)
  obtain email future where fu: "fu = (email, future)" by (cases fu) auto
  define step where "step =
     (case future_result future w of
        (Return results, w1) \<Rightarrow> BigQueryBatcher_add E results b w1
      | (Raise e, w1) \<Rightarrow> (Raise e, b, w1)
      | (OutOfFuel, w1) \<Rightarrow> (OutOfFuel, b, w1))"
  have "fst step \<noteq> OutOfFuel"
    by (cases future) (simp_all add: step_def add_not_OutOfFuel)
  then obtain r b1 w2 where s: "step = (r, b1, w2)" "r \<noteq> OutOfFuel"
    by (cases step) auto
  show ?case
  proof (cases r)
    case (Return x)
    from Cons.IH [of b1 w2] show ?thesis
      using s Return unfolding fu by (simp add: step_def [symmetric])
  next
    case (Raise exc)
    from Cons.IH [of b1 "log ERROR (''Worker exception for user '' @ email @ '': '' @ str_exn exc) w2"]
    show ?thesis
      using s Raise unfolding fu by (simp add: step_def [symmetric])
  next
    case OutOfFuel
    with s show ?thesis by simp
  qed
qed

lemma users_loop_calls:
  "\<exists>cs. calls (snd (snd (users_loop E fuel tok acc w))) = calls w @ cs \<and>
        \<not> list_ex is_sink_call cs \<and>
        tables (snd (snd (users_loop E fuel tok acc w))) = tables w"
proof (induction fuel arbitrary: tok acc w)
  case 0
  show ?case by simp
next
  case (Suc n)
  let ?w1 = "w\<lparr>calls := calls w @ [UsersList tok]\<rparr>"
  let ?res = "users_list_r E (length (calls w)) tok"
  from Suc.IH [of "up_nextPageToken ?res" "acc @ filter (\<lambda>u. \<not> suspended u) (up_users ?res)" ?w1]
  obtain cs where
    ih: "calls (snd (snd (users_loop E n (up_nextPageToken ?res)
                 (acc @ filter (\<lambda>u. \<not> suspended u) (up_users ?res)) ?w1))) = calls ?w1 @ cs"
        "\<not> list_ex is_sink_call cs"
        "tables (snd (snd (users_loop E n (up_nextPageToken ?res)
                 (acc @ filter (\<lambda>u. \<not> suspended u) (up_users ?res)) ?w1))) = tables ?w1"
    by blast
  show ?case
  proof (cases "fault E (length (calls w)) (UsersList tok) = None
                \<and> truthy (up_nextPageToken ?res)")
    case True
    then have "users_loop E (Suc n) tok acc w
        = users_loop E n (up_nextPageToken ?res)
            (acc @ filter (\<lambda>u. \<not> suspended u) (up_users ?res)) ?w1"
      by (simp add: users_loop_Suc del: users_loop.simps)
    with ih show ?thesis
      by (auto intro!: exI [of _ "UsersList tok # cs"])
  next
    case False
    then show ?thesis
      by (auto simp: users_loop_Suc simp del: users_loop.simps split: option.splits
          intro!: exI [of _ "[UsersList tok]"])
  qed
qed

lemma get_all_domain_users_calls:
  "\<exists>cs. calls (snd (get_all_domain_users E fuel ds w)) = calls w @ cs \<and>
        \<not> list_ex is_sink_call cs \<and>
        tables (snd (get_all_domain_users E fuel ds w)) = tables w"
proof -
  let ?w0 = "log INFO ''Fetching list of all domain users...'' w"
  from users_loop_calls [of E fuel None "[]" ?w0] obtain cs where
    "calls (snd (snd (users_loop E fuel None [] ?w0))) = calls w @ cs"
    "\<not> list_ex is_sink_call cs"
    "tables (snd (snd (users_loop E fuel None [] ?w0))) = tables w"
    by auto
  then show ?thesis
    by (auto simp: get_all_domain_users_def split: prod.splits outcome.splits)
qed

lemma pipeline_admin_fails:
  assumes "fault E (length (calls w)) (Acquire ''admin'' ''directory_v1'' admin) = Some e"
  shows "\<exists>w'. main_handler E fuel admin tbl w = (Return (''Admin Auth Failure'', 500), w') \<and>
     calls w' = calls w @ [Acquire ''admin'' ''directory_v1'' admin] \<and> tables w' = tables w"
  using assms
  by (simp add: main_handler_def try_except_def pipeline_def get_impersonated_service_cases)

lemma pipeline_admin_ok:
  assumes pe: "paging_ends E B"
    and ok: "fault E (length (calls w)) (Acquire ''admin'' ''directory_v1'' admin) = None"
  shows "\<exists>r w'. main_handler E (Suc B) admin tbl w = (Return r, w') \<and>
     (r = (''Success'', 200) \<or> r = (''No Users Found'', 200) \<or> (\<exists>d. r = (''Failed: '' @ d, 500))) \<and>
     (fst (get_all_domain_users E (Suc B) (Service ''admin'' ''directory_v1'' admin)
            (snd (get_impersonated_service E ''admin'' ''directory_v1'' admin
               (log INFO (''Starting Manifest Audit Pipeline (Workers: '' @ str_nat MAX_WORKERS @ '')'') w))))
        = Return []
      \<longrightarrow> r = (''No Users Found'', 200) \<and>
          \<not> list_ex is_sink_call (drop (length (calls w)) (calls w')) \<and> tables w' = tables w)"
proof -
  define w0 where "w0 = log INFO (''Starting Manifest Audit Pipeline (Workers: '' @ str_nat MAX_WORKERS @ '')'') w"
  define ds where "ds = Service ''admin'' ''directory_v1'' admin"
  define w1 where "w1 = w0\<lparr>calls := calls w @ [Acquire ''admin'' ''directory_v1'' admin]\<rparr>"
  have c0: "calls w0 = calls w" "tables w0 = tables w" by (simp_all add: w0_def)
  have gi: "get_impersonated_service E ''admin'' ''directory_v1'' admin w0 = (Return (Some ds), w1)"
    using ok by (simp add: get_impersonated_service_cases c0 ds_def w1_def)
  have pl: "pipeline E (Suc B) admin tbl w =
     (case get_all_domain_users E (Suc B) ds w1 of
             (Return all_users, w2) \<Rightarrow>
               if all_users = []
               then (Return (''No Users Found'', 200), log WARNING ''No users found. Exiting.'' w2)
               else
                 (case submit_all E (Suc B) (map primaryEmail all_users) w2 of
                    (Return futures, w3) \<Rightarrow>
                      (case collect E (as_completed E futures) \<lparr>table_id = tbl, buffer = []\<rparr> w3 of
                         (Return u, b1, w4) \<Rightarrow>
                           (case BigQueryBatcher_flush E b1 w4 of
                              (Return u2, b2, w5) \<Rightarrow>
                                (Return (''Success'', 200),
                                 log INFO ''Pipeline completed successfully.'' w5)
                            | (Raise e, b2, w5) \<Rightarrow> (Raise e, w5)
                            | (OutOfFuel, b2, w5) \<Rightarrow> (OutOfFuel, w5))
                       | (Raise e, b1, w4) \<Rightarrow> (Raise e, w4)
                       | (OutOfFuel, b1, w4) \<Rightarrow> (OutOfFuel, w4))
                  | (Raise e, w3) \<Rightarrow> (Raise e, w3)
                  | (OutOfFuel, w3) \<Rightarrow> (OutOfFuel, w3))
           | (Raise e, w2) \<Rightarrow> (Raise e, w2)
           | (OutOfFuel, w2) \<Rightarrow> (OutOfFuel, w2))"
    unfolding pipeline_def w0_def [symmetric] gi by simp
  from get_all_domain_users_shape [of E "Suc B" ds w1]
    get_all_domain_users_returns [OF pe, of ds w1]
  obtain all_users w2 where ga: "get_all_domain_users E (Suc B) ds w1 = (Return all_users, w2)"
    by (cases "fst (get_all_domain_users E (Suc B) ds w1)") auto
  from get_all_domain_users_calls [of E "Suc B" ds w1] ga obtain cs where
    cs: "calls w2 = calls w1 @ cs" "\<not> list_ex is_sink_call cs" "tables w2 = tables w1"
    by auto
  have hyp: "fst (get_all_domain_users E (Suc B) (Service ''admin'' ''directory_v1'' admin)
            (snd (get_impersonated_service E ''admin'' ''directory_v1'' admin
               (log INFO (''Starting Manifest Audit Pipeline (Workers: '' @ str_nat MAX_WORKERS @ '')'') w))))
        = Return all_users"
    unfolding w0_def [symmetric] gi ds_def [symmetric] using ga by simp
  show ?thesis
  proof (cases "all_users = []")
    case True
    have "main_handler E (Suc B) admin tbl w
            = (Return (''No Users Found'', 200), log WARNING ''No users found. Exiting.'' w2)"
      using True ga by (simp add: main_handler_def try_except_def pl)
    moreover have "\<not> list_ex is_sink_call (drop (length (calls w))
                      (calls (log WARNING ''No users found. Exiting.'' w2)))"
      using cs by (simp add: w1_def)
    moreover have "tables (log WARNING ''No users found. Exiting.'' w2) = tables w"
      using cs c0 by (simp add: w1_def)
    ultimately show ?thesis by blast
  next
    case False
    from submit_all_returns [OF pe, of "map primaryEmail all_users" w2] obtain futures w3 where
      su: "submit_all E (Suc B) (map primaryEmail all_users) w2 = (Return futures, w3)" by blast
    from collect_returns [of E "as_completed E futures" "\<lparr>table_id = tbl, buffer = []\<rparr>" w3]
    obtain b1 w4 where
      co: "collect E (as_completed E futures) \<lparr>table_id = tbl, buffer = []\<rparr> w3 = (Return (), b1, w4)"
      by blast
    from flush_cases [of E b1 w4] obtain w5 where
      fl: "BigQueryBatcher_flush E b1 w4 = (Return (), b1\<lparr>buffer := []\<rparr>, w5) \<or>
           (\<exists>e. BigQueryBatcher_flush E b1 w4 = (Raise e, b1, w5))"
      by blast
    have ne: "Return all_users \<noteq> Return []" using False by simp
    from fl show ?thesis
    proof
      assume "BigQueryBatcher_flush E b1 w4 = (Return (), b1\<lparr>buffer := []\<rparr>, w5)"
      then have "main_handler E (Suc B) admin tbl w
            = (Return (''Success'', 200), log INFO ''Pipeline completed successfully.'' w5)"
        using False ga su co by (simp add: main_handler_def try_except_def pl)
      then show ?thesis using ne unfolding hyp by blast
    next
      assume "\<exists>e. BigQueryBatcher_flush E b1 w4 = (Raise e, b1, w5)"
      then obtain e where "BigQueryBatcher_flush E b1 w4 = (Raise e, b1, w5)" by blast
      then have "main_handler E (Suc B) admin tbl w
            = (Return (''Failed: '' @ str_exn e, 500),
               log CRITICAL (''Pipeline Critical Failure: '' @ str_exn e) w5)"
        using False ga su co by (simp add: main_handler_def try_except_def pl)
      then show ?thesis using ne unfolding hyp by blast
    qed
  qed
qed

text \<open>
  C8: when the paginated listings end, \<open>main_handler\<close> returns, and what it returns is one
  of \<open>("Success", 200)\<close>, \<open>("No Users Found", 200)\<close>, \<open>("Admin Auth Failure", 500)\<close> and
  \<open>("Failed: <detail>", 500)\<close>. When the admin handle cannot be acquired it returns
  \<open>("Admin Auth Failure", 500)\<close> and the acquisition is the only call it has made. When
  the list of active users is empty it returns \<open>("No Users Found", 200)\<close>, none of its
  calls is a call of the sink, and the tables are untouched.
\<close>

theorem C8_main_handler_status:
  assumes "paging_ends E B"
  shows "\<exists>r w'. main_handler E (Suc B) admin tbl w = (Return r, w') \<and>
     (r = (''Success'', 200) \<or> r = (''No Users Found'', 200) \<or> r = (''Admin Auth Failure'', 500)
        \<or> (\<exists>d. r = (''Failed: '' @ d, 500))) \<and>
     (fault E (length (calls w)) (Acquire ''admin'' ''directory_v1'' admin) \<noteq> None
      \<longrightarrow> r = (''Admin Auth Failure'', 500) \<and>
          calls w' = calls w @ [Acquire ''admin'' ''directory_v1'' admin] \<and> tables w' = tables w) \<and>
     (fault E (length (calls w)) (Acquire ''admin'' ''directory_v1'' admin) = None \<and>
      fst (get_all_domain_users E (Suc B) (Service ''admin'' ''directory_v1'' admin)
            (snd (get_impersonated_service E ''admin'' ''directory_v1'' admin
               (log INFO (''Starting Manifest Audit Pipeline (Workers: '' @ str_nat MAX_WORKERS @ '')'') w))))
        = Return []
      \<longrightarrow> r = (''No Users Found'', 200) \<and>
          \<not> list_ex is_sink_call (drop (length (calls w)) (calls w')) \<and> tables w' = tables w)"
proof (cases "fault E (length (calls w)) (Acquire ''admin'' ''directory_v1'' admin)")
  case None
  from pipeline_admin_ok [OF assms None, of tbl] obtain r w' where
    "main_handler E (Suc B) admin tbl w = (Return r, w')"
    "r = (''Success'', 200) \<or> r = (''No Users Found'', 200) \<or> (\<exists>d. r = (''Failed: '' @ d, 500))"
    "fst (get_all_domain_users E (Suc B) (Service ''admin'' ''directory_v1'' admin)
            (snd (get_impersonated_service E ''admin'' ''directory_v1'' admin
               (log INFO (''Starting Manifest Audit Pipeline (Workers: '' @ str_nat MAX_WORKERS @ '')'') w))))
        = Return []
      \<longrightarrow> r = (''No Users Found'', 200) \<and>
          \<not> list_ex is_sink_call (drop (length (calls w)) (calls w')) \<and> tables w' = tables w"
    by blast
  with None show ?thesis by blast
next
  case (Some e)
  from pipeline_admin_fails [OF Some, of "Suc B" tbl] obtain w' where
    "main_handler E (Suc B) admin tbl w = (Return (''Admin Auth Failure'', 500), w')"
    "calls w' = calls w @ [Acquire ''admin'' ''directory_v1'' admin]" "tables w' = tables w"
    by blast
  with Some show ?thesis by auto
qed

lemma env0_all_fields:
  "fault env0 t c = None"
  "users_list_r env0 t tok = \<lparr>up_users = [], up_nextPageToken = None\<rparr>"
  "files_list_r env0 t x tok = \<lparr>fp_files = [], fp_nextPageToken = None\<rparr>"
  by (simp_all add: env0_def)

lemma env_users_fields:
  "fault env_users t c = None"
  "users_list_r env_users t tok =
     \<lparr>up_users = [\<lparr>primaryEmail = ''u@x'', suspended = False\<rparr>], up_nextPageToken = None\<rparr>"
  "files_list_r env_users = one_script"
  "get_content_r env_users t x sid =
     [\<lparr>cf_name = ''appsscript'', cf_type = ''JSON'', cf_source = Some ''{}''\<rparr>]"
  "utcnow_isoformat env_users t = ''d''"
  "timestamp env_users t = 0" "getpid env_users = 1"
  "as_completed env_users fs = fs"
  "dataset_id env_users = Some ''ds''"
  by (simp_all add: env_users_def env_manifest_def env0_def)

lemma env_users_delete_fails_fields:
  "fault env_users_delete_fails t (DeleteTable x) = Some (OtherException ''Forbidden'')"
  "fault env_users_delete_fails t (Acquire a v x) = None"
  "fault env_users_delete_fails t (UsersList tok) = None"
  "fault env_users_delete_fails t (FilesList x tok) = None"
  "fault env_users_delete_fails t (GetContent x sid) = None"
  "fault env_users_delete_fails t (GetTable x) = None"
  "fault env_users_delete_fails t (LoadTable x rs) = None"
  "fault env_users_delete_fails t (JobResult x) = None"
  "fault env_users_delete_fails t (MergeQuery x y) = None"
  "users_list_r env_users_delete_fails t tok =
     \<lparr>up_users = [\<lparr>primaryEmail = ''u@x'', suspended = False\<rparr>], up_nextPageToken = None\<rparr>"
  "files_list_r env_users_delete_fails = one_script"
  "get_content_r env_users_delete_fails t x sid =
     [\<lparr>cf_name = ''appsscript'', cf_type = ''JSON'', cf_source = Some ''{}''\<rparr>]"
  "utcnow_isoformat env_users_delete_fails t = ''d''"
  "timestamp env_users_delete_fails t = 0" "getpid env_users_delete_fails = 1"
  "as_completed env_users_delete_fails fs = fs"
  "dataset_id env_users_delete_fails = Some ''ds''"
  by (simp_all add: env_users_delete_fails_def env_users_def env_manifest_def env0_def)

lemma paging_ends_envs:
  "paging_ends env0 0" "paging_ends env_auth_fails 0" "paging_ends env_users 0"
  "paging_ends env_users_delete_fails 0"
  by (simp_all add: paging_ends_def env_users_delete_fails_def env_users_def env_manifest_def
      env_auth_fails_def env0_def one_script_def truthy_def)

lemma main_handler_env_users:
  "fst (main_handler env_users (Suc 0) ''a@x'' ''t'' world0) = Return (''Success'', 200) \<and>
   tables (snd (main_handler env_users (Suc 0) ''a@x'' ''t'' world0)) ''t'' = Some [row_s1] \<and>
   tables (snd (main_handler env_users (Suc 0) ''a@x'' ''t'' world0)) ''t_staging_0_1'' = None"
  by (simp add: main_handler_def try_except_def pipeline_def get_impersonated_service_cases
      get_all_domain_users_def users_loop_Suc scan_user_for_manifests_cases files_loop_Suc
      get_manifest_content_ok env_users_fields one_script_def world0_def truthy_def row_s1_def
      BigQueryBatcher_add_def BigQueryBatcher_flush_def BQ_BATCH_SIZE_def Let_def
      execute_merge_query_def client_dataset_def temp_table_id_def str_nat_small digit_char_def
      try_finally_def merge_attempt_def bind_def get_table_def load_table_from_json_def
      job_result_def query_result_def delete_table_def remote_def bq_merge_def
      del: users_loop.simps files_loop.simps)

lemma main_handler_env_users_delete_fails:
  "fst (main_handler env_users_delete_fails (Suc 0) ''a@x'' ''t'' world0)
     = Return (''Failed: Forbidden'', 500)"
  by (simp add: main_handler_def try_except_def pipeline_def get_impersonated_service_cases
      get_all_domain_users_def users_loop_Suc scan_user_for_manifests_cases files_loop_Suc
      get_manifest_content_ok env_users_delete_fails_fields one_script_def world0_def truthy_def
      BigQueryBatcher_add_def BigQueryBatcher_flush_def BQ_BATCH_SIZE_def Let_def
      execute_merge_query_def client_dataset_def temp_table_id_def str_nat_small digit_char_def
      try_finally_def merge_attempt_def bind_def get_table_def load_table_from_json_def
      job_result_def query_result_def delete_table_def remote_def bq_merge_def
      del: users_loop.simps files_loop.simps)

lemma main_handler_env0:
  "fst (main_handler env0 (Suc 0) ''a@x'' ''t'' world0) = Return (''No Users Found'', 200)"
  by (simp add: main_handler_def try_except_def pipeline_def get_impersonated_service_cases
      get_all_domain_users_def users_loop_Suc env0_all_fields truthy_def
      del: users_loop.simps)

text \<open>
  C8 on four runs, one for each status: no admin handle; an empty directory; one user with
  one script, merged into the target table; and the same with a store that refuses to
  delete the staging table.
\<close>

theorem C8_main_handler_status_witness:
  "paging_ends env_auth_fails 0 \<and>
   fault env_auth_fails (length (calls world0)) (Acquire ''admin'' ''directory_v1'' ''a@x'') \<noteq> None \<and>
   main_handler env_auth_fails (Suc 0) ''a@x'' ''t'' world0 =
     (Return (''Admin Auth Failure'', 500),
      snd (main_handler env_auth_fails (Suc 0) ''a@x'' ''t'' world0)) \<and>
   calls (snd (main_handler env_auth_fails (Suc 0) ''a@x'' ''t'' world0))
     = [Acquire ''admin'' ''directory_v1'' ''a@x''] \<and>
   paging_ends env0 0 \<and>
   fault env0 (length (calls world0)) (Acquire ''admin'' ''directory_v1'' ''a@x'') = None \<and>
   fst (get_all_domain_users env0 (Suc 0) (Service ''admin'' ''directory_v1'' ''a@x'')
          (snd (get_impersonated_service env0 ''admin'' ''directory_v1'' ''a@x''
             (log INFO (''Starting Manifest Audit Pipeline (Workers: '' @ str_nat MAX_WORKERS @ '')'') world0))))
     = Return [] \<and>
   fst (main_handler env0 (Suc 0) ''a@x'' ''t'' world0) = Return (''No Users Found'', 200) \<and>
   \<not> list_ex is_sink_call (calls (snd (main_handler env0 (Suc 0) ''a@x'' ''t'' world0))) \<and>
   fst (main_handler env_users (Suc 0) ''a@x'' ''t'' world0) = Return (''Success'', 200) \<and>
   tables (snd (main_handler env_users (Suc 0) ''a@x'' ''t'' world0)) ''t'' = Some [row_s1] \<and>
   fst (main_handler env_users_delete_fails (Suc 0) ''a@x'' ''t'' world0)
     = Return (''Failed: Forbidden'', 500)"
proof -
  note A = C8_main_handler_status [OF paging_ends_envs(2), of "''a@x''" "''t''" world0]
  note B = C8_main_handler_status [OF paging_ends_envs(1), of "''a@x''" "''t''" world0]
  have h1: "fault env_auth_fails (length (calls world0)) (Acquire ''admin'' ''directory_v1'' ''a@x'') \<noteq> None"
    by (simp add: env_auth_fails_fields)
  from A h1 obtain w' where
    a: "main_handler env_auth_fails (Suc 0) ''a@x'' ''t'' world0 = (Return (''Admin Auth Failure'', 500), w')"
       "calls w' = calls world0 @ [Acquire ''admin'' ''directory_v1'' ''a@x'']"
    by auto
  have a1: "main_handler env_auth_fails (Suc 0) ''a@x'' ''t'' world0 =
     (Return (''Admin Auth Failure'', 500),
      snd (main_handler env_auth_fails (Suc 0) ''a@x'' ''t'' world0))"
    using a(1) by simp
  have a2: "calls (snd (main_handler env_auth_fails (Suc 0) ''a@x'' ''t'' world0))
     = [Acquire ''admin'' ''directory_v1'' ''a@x'']"
    using a by (simp add: world0_fields)
  have h2: "fault env0 (length (calls world0)) (Acquire ''admin'' ''directory_v1'' ''a@x'') = None"
    by (simp add: env0_all_fields)
  have h3: "fst (get_all_domain_users env0 (Suc 0) (Service ''admin'' ''directory_v1'' ''a@x'')
          (snd (get_impersonated_service env0 ''admin'' ''directory_v1'' ''a@x''
             (log INFO (''Starting Manifest Audit Pipeline (Workers: '' @ str_nat MAX_WORKERS @ '')'') world0))))
     = Return []"
    by (simp add: get_all_domain_users_def users_loop_Suc env0_all_fields truthy_def
        del: users_loop.simps)
  from B h2 h3 obtain w2 where
    b: "main_handler env0 (Suc 0) ''a@x'' ''t'' world0 = (Return (''No Users Found'', 200), w2)"
       "\<not> list_ex is_sink_call (drop (length (calls world0)) (calls w2))"
    by auto
  have b1: "fst (main_handler env0 (Suc 0) ''a@x'' ''t'' world0) = Return (''No Users Found'', 200)"
    using b(1) by simp
  have b2: "\<not> list_ex is_sink_call (calls (snd (main_handler env0 (Suc 0) ''a@x'' ''t'' world0)))"
    using b by (simp add: world0_fields)
  note c = main_handler_env_users
  show ?thesis
    by (intro conjI paging_ends_envs(2) h1 a1 a2 paging_ends_envs(1) h2 h3 b1 b2
        c [THEN conjunct1] c [THEN conjunct2, THEN conjunct1] main_handler_env_users_delete_fails)
qed

end
